theory Spec2Isabelle
  imports Complex_Main "HOL-Library.Sublist"
begin

section \<open>JavaScript values shared by the models\<close>

text \<open>
  Strings are lists of characters (\<open>string\<close>); the characters of the source's string
  literals are all ASCII. A thrown \<open>new Error(msg)\<close> is the value \<open>Error msg\<close>, a
  \<open>TypeError\<close> raised by the runtime is \<open>TypeError msg\<close>; a function that may
  throw returns \<open>error + 'a\<close> with \<open>Inl\<close> for the thrown value.
\<close>

datatype error = Error string | TypeError string

definition newline :: char where
  "newline = CHR 0x0A"

section \<open>Emulator provisioning (\<open>lib/utils/qemu.ts\<close>)\<close>

text \<open>
  \<open>balenaArchToQemuArch\<close>: a \<open>switch\<close> over the architecture name with three
  labels falling through to \<open>'arm'\<close>, one label for \<open>'aarch64'\<close>, and a
  \<open>default\<close> that throws.
\<close>

definition balenaArchToQemuArch :: "string \<Rightarrow> error + string" where
  "balenaArchToQemuArch arch =
     (if arch = ''armv7hf'' \<or> arch = ''rpi'' \<or> arch = ''armhf'' then Inr ''arm''
      else if arch = ''aarch64'' then Inr ''aarch64''
      else Inl (Error (''Cannot install emulator for architecture '' @ arch)))"

text \<open>
  The rest of the module acts on the file system, the network, the Docker daemon and
  the logger. The world records what the provisioning changes: the files (content and
  mode) and directories that exist, the URLs requested so far, and the lines logged.
  What the outside answers is the environment: the daemon's \<open>info()\<close>, the
  \<open>binDirectory\<close> setting, an error of \<open>mkdir\<close> other than \<open>EEXIST\<close>, and for a
  URL either a failure or the entries (name and data) of the archive it serves.
\<close>

record fileEntry =
  content :: string
  mode :: string

record world =
  files :: "string \<Rightarrow> fileEntry option"
  dirs :: "string set"
  requests :: "string list"
  logged :: "string list"

record dockerInfo =
  OperatingSystem :: string
  Architecture :: string

record environment =
  info :: "error + dockerInfo"
  binDirectory :: "error + string"
  mkdirError :: "error option"
  fetch :: "string \<Rightarrow> error + (string \<times> string) list"

definition QEMU_VERSION :: string where
  "QEMU_VERSION = ''v4.0.0+balena2''"

definition QEMU_BIN_NAME :: string where
  "QEMU_BIN_NAME = ''qemu-execve''"

text \<open>\<open>path.join\<close> of a normalised directory and a file name.\<close>

definition pathJoin :: "string \<Rightarrow> string \<Rightarrow> string" where
  "pathJoin d name = d @ ''/'' @ name"

text \<open>\<open>String.prototype.includes\<close>.\<close>

fun strIncludes :: "string \<Rightarrow> string \<Rightarrow> bool" where
  "strIncludes [] needle = (needle = [])"
| "strIncludes (c # cs) needle = (prefix needle (c # cs) \<or> strIncludes cs needle)"

text \<open>The name of the cached binary: it includes the architecture and the version.\<close>

definition qemuFileName :: "string \<Rightarrow> string" where
  "qemuFileName arch = QEMU_BIN_NAME @ ''-'' @ arch @ ''-'' @ QEMU_VERSION"

text \<open>
  \<open>getQemuPath\<close>: reads the setting, creates the directory (an \<open>EEXIST\<close> is caught,
  any other error propagates) and joins the file name.
\<close>

definition getQemuPath :: "environment \<Rightarrow> string \<Rightarrow> world \<Rightarrow> (error + string) \<times> world" where
  "getQemuPath env arch w =
     (case binDirectory env of
        Inl e \<Rightarrow> (Inl e, w)
      | Inr binDir \<Rightarrow>
          if binDir \<in> dirs w then
            (Inr (pathJoin binDir (qemuFileName arch)), w)
          else
            (case mkdirError env of
               Some e \<Rightarrow> (Inl e, w)
             | None \<Rightarrow>
                 (Inr (pathJoin binDir (qemuFileName arch)),
                  w \<lparr> dirs := insert binDir (dirs w) \<rparr>)))"

text \<open>
  The download URL. \<open>fileVersion\<close> is \<open>QEMU_VERSION\<close> without its leading \<open>v\<close> and
  with \<open>+\<close> replaced by a dot; \<open>encodeURIComponent\<close> turns the \<open>+\<close> of the version
  into \<open>%2B\<close> and leaves the file name, for the two emulator variants, as it is.
\<close>

definition qemuUrl :: "string \<Rightarrow> string" where
  "qemuUrl qemuArch =
     ''https://github.com/balena-io/qemu/releases/download/v4.0.0%2Bbalena2/''
       @ ''qemu-4.0.0.balena2-'' @ qemuArch @ ''.tar.gz''"

text \<open>
  \<open>installQemu\<close>. Opening the write stream creates the file, or empties it, before
  anything is downloaded. The architecture is mapped next; a throw there rejects the
  promise. Then the archive is requested and extracted into the file, and on
  \<open>finish\<close> the file is made executable. A failure of the request, of the
  decompression or of the extraction rejects the promise.
\<close>

definition createWriteStream :: "string \<Rightarrow> world \<Rightarrow> world" where
  "createWriteStream p w =
     w \<lparr> files := (files w)(p \<mapsto>
           (case files w p of
              Some f \<Rightarrow> f \<lparr> content := [] \<rparr>
            | None \<Rightarrow> \<lparr> content = [], mode = ''666'' \<rparr>)) \<rparr>"

text \<open>
  The \<open>entry\<close> handler of the extraction: the data of the entry whose name includes
  \<open>qemu-<variant>-static\<close> reaches the file; every other entry is drained.
\<close>

definition extractBinary :: "string \<Rightarrow> (string \<times> string) list \<Rightarrow> string" where
  "extractBinary qemuArch entries =
     (case filter (\<lambda>entry. strIncludes (fst entry) (''qemu-'' @ qemuArch @ ''-static'')) entries of
        [] \<Rightarrow> []
      | entry # _ \<Rightarrow> snd entry)"

definition installQemu :: "environment \<Rightarrow> string \<Rightarrow> world \<Rightarrow> (error + unit) \<times> world" where
  "installQemu env arch w =
     (case getQemuPath env arch w of
        (Inl e, w1) \<Rightarrow> (Inl e, w1)
      | (Inr qemuPath, w1) \<Rightarrow>
          let w2 = createWriteStream qemuPath w1 in
          (case balenaArchToQemuArch arch of
             Inl e \<Rightarrow> (Inl e, w2)
           | Inr qemuArch \<Rightarrow>
               let url = qemuUrl qemuArch;
                   w3 = w2 \<lparr> requests := requests w2 @ [url] \<rparr>
               in (case fetch env url of
                     Inl e \<Rightarrow> (Inl e, w3)
                   | Inr entries \<Rightarrow>
                       (Inr (),
                        w3 \<lparr> files := (files w3)(qemuPath \<mapsto>
                               \<lparr> content = extractBinary qemuArch entries,
                                 mode = ''755'' \<rparr>) \<rparr>))))"

text \<open>
  \<open>platformNeedsQemu\<close>: \<open>/(?:Docker Desktop)|(?:Docker for Mac)/i\<close> is tested on
  the daemon's operating system; the letters of the pattern are ASCII, so ignoring
  case is comparing the lower-cased strings.
\<close>

definition toLowerAscii :: "char \<Rightarrow> char" where
  "toLowerAscii c =
     (if 65 \<le> (of_char c :: nat) \<and> (of_char c :: nat) \<le> 90
      then char_of ((of_char c :: nat) + 32) else c)"

definition isDockerDesktop :: "string \<Rightarrow> bool" where
  "isDockerDesktop os =
     (strIncludes (map toLowerAscii os) ''docker desktop''
      \<or> strIncludes (map toLowerAscii os) ''docker for mac'')"

definition platformNeedsQemu :: "environment \<Rightarrow> world \<Rightarrow> (error + bool) \<times> world" where
  "platformNeedsQemu env w =
     (case info env of
        Inl e \<Rightarrow> (Inl e, w)
      | Inr dockerInfo \<Rightarrow>
          if isDockerDesktop (OperatingSystem dockerInfo) then
            (Inr False,
             w \<lparr> logged := logged w @
                   [''Docker Desktop detected (daemon architecture: '' @ [CHR 0x22]
                      @ Architecture dockerInfo @ [CHR 0x22] @ '')'' @ [newline]
                      @ ''  Docker itself will determine and enable architecture emulation if required,''
                      @ [newline]
                      @ ''  without balena-cli intervention and regardless of the --emulated option.''] \<rparr>)
          else (Inr True, w))"

text \<open>
  \<open>installQemuIfNeeded\<close>: the platform is asked first, whatever \<open>emulated\<close> is; the
  binary is installed only when the existence test on its path fails.
\<close>

definition installQemuIfNeeded ::
  "environment \<Rightarrow> bool \<Rightarrow> string \<Rightarrow> world \<Rightarrow> (error + bool) \<times> world" where
  "installQemuIfNeeded env emulated arch w =
     (case platformNeedsQemu env w of
        (Inl e, w1) \<Rightarrow> (Inl e, w1)
      | (Inr needsQemu, w1) \<Rightarrow>
          if \<not> emulated \<or> \<not> needsQemu then (Inr False, w1)
          else
            (case getQemuPath env arch w1 of
               (Inl e, w2) \<Rightarrow> (Inl e, w2)
             | (Inr qemuPath, w2) \<Rightarrow>
                 if files w2 qemuPath = None then
                   (case installQemu env arch
                           (w2 \<lparr> logged := logged w2
                                   @ [''Installing qemu for '' @ arch @ '' emulation...''] \<rparr>) of
                      (Inl e, w3) \<Rightarrow> (Inl e, w3)
                    | (Inr _, w3) \<Rightarrow> (Inr True, w3))
                 else (Inr True, w2)))"

section \<open>Log truncation (\<open>truncateString\<close>)\<close>

text \<open>
  \<open>String.prototype.lastIndexOf\<close> with a one-character needle: the greatest index
  holding the character, or \<open>-1\<close> when the string does not contain it.
\<close>

fun lastIndexOf :: "string \<Rightarrow> char \<Rightarrow> int" where
  "lastIndexOf [] c = - 1"
| "lastIndexOf (x # xs) c =
     (let r = lastIndexOf xs c
      in if 0 \<le> r then r + 1 else if x = c then 0 else - 1)"

text \<open>
  \<open>str.slice(0, end)\<close>: a negative \<open>end\<close> counts from the end of the string
  (and is clamped at \<open>0\<close>), a non-negative one is clamped at the length.
\<close>

definition slice0 :: "string \<Rightarrow> int \<Rightarrow> string" where
  "slice0 str e =
     (if e < 0 then take (nat (int (length str) + e)) str else take (nat e) str)"

definition truncateString :: "string \<Rightarrow> nat \<Rightarrow> string" where
  "truncateString str len =
     (if length str < len then str
      else let str' = slice0 str (int len)
           in slice0 str' (lastIndexOf str' newline))"

definition LOG_LENGTH_MAX :: nat where
  "LOG_LENGTH_MAX = 512 * 1024"

section \<open>Progress pipeline\<close>

subsection \<open>Values of the structured events\<close>

text \<open>
  A property of a JavaScript object is absent (\<open>Undefined\<close>), \<open>null\<close> or holds a
  value. Numbers are the integers together with the two infinities and \<open>NaN\<close>; the
  percentages and step counts of the pipeline are integers far below \<open>2^53\<close>, where
  the arithmetic of doubles is exact.
\<close>

datatype 'a js = Undefined | Null | Val 'a

datatype jsnum = Finite int | Infinity | NegInfinity | NaN

definition nullish :: "'a js \<Rightarrow> bool" where
  "nullish v = (case v of Val _ \<Rightarrow> False | _ \<Rightarrow> True)"

text \<open>Truthiness: the empty string, \<open>0\<close>, \<open>NaN\<close>, \<open>null\<close> and \<open>undefined\<close> are falsy.\<close>

definition truthyStr :: "string js \<Rightarrow> bool" where
  "truthyStr v = (case v of Val s \<Rightarrow> s \<noteq> [] | _ \<Rightarrow> False)"

definition truthyNum :: "jsnum js \<Rightarrow> bool" where
  "truthyNum v = (case v of Val (Finite i) \<Rightarrow> i \<noteq> 0 | Val NaN \<Rightarrow> False
                  | Val _ \<Rightarrow> True | _ \<Rightarrow> False)"

text \<open>Decimal digits of a number, as a template literal prints them.\<close>

definition digitChar :: "nat \<Rightarrow> char" where
  "digitChar d = char_of (48 + d)"

fun showNat :: "nat \<Rightarrow> string" where
  "showNat n = (if n < 10 then [digitChar n] else showNat (n div 10) @ [digitChar (n mod 10)])"

definition numberToString :: "jsnum \<Rightarrow> string" where
  "numberToString x =
     (case x of
        Finite i \<Rightarrow> if i < 0 then CHR ''-'' # showNat (nat (- i)) else showNat (nat i)
      | Infinity \<Rightarrow> ''Infinity''
      | NegInfinity \<Rightarrow> ''-Infinity''
      | NaN \<Rightarrow> ''NaN'')"

text \<open>A string-valued property inside a template literal.\<close>

definition toStr :: "string js \<Rightarrow> string" where
  "toStr v = (case v of Undefined \<Rightarrow> ''undefined'' | Null \<Rightarrow> ''null'' | Val s \<Rightarrow> s)"

text \<open>
  The structured event \<open>{status, progress, error}\<close>, and what travels on a service's
  stream: a raw string of the build log or a structured event of a pull.
\<close>

record event =
  status :: "string js"
  progress :: "jsnum js"
  error :: "string js"

datatype payload = Str string | Obj event

subsection \<open>\<open>buildLogCapture\<close>\<close>

text \<open>
  The transform pushes one entry onto the log buffer and calls back with the data it was
  given. The result is the buffer after the push and the value passed downstream. A raw
  string has none of the three properties, so it takes the last branch.
\<close>

definition buildLogCapture :: "bool \<Rightarrow> payload list \<Rightarrow> payload \<Rightarrow> payload list \<times> payload" where
  "buildLogCapture objectMode buffer data =
     (case data of
        Str s \<Rightarrow> (buffer @ [data], data)
      | Obj e \<Rightarrow>
          if truthyStr (error e) then (buffer @ [Str (toStr (error e))], data)
          else if truthyNum (progress e) \<and> truthyStr (status e) then
            (buffer @ [Str ((case progress e of Val p \<Rightarrow> numberToString p | _ \<Rightarrow> [])
                            @ ''% '' @ toStr (status e))], data)
          else if truthyStr (status e) then (buffer @ [Str (toStr (status e))], data)
          else (buffer @ [data], data))"

subsection \<open>\<open>pullProgressAdapter\<close>\<close>

record errorDetail =
  message :: "string js"

record pullEvent =
  p_status :: "string js"
  p_id :: "string js"
  p_percentage :: "jsnum js"
  p_error :: "string js"
  p_errorDetail :: "errorDetail js"

text \<open>\<open>status.replace(/^Status: /, '')\<close>: one leading occurrence is removed.\<close>

definition stripStatusPrefix :: "string \<Rightarrow> string" where
  "stripStatusPrefix s = (if prefix ''Status: '' s then drop 8 s else s)"

text \<open>
  The adapter returns the event it writes to the output stream. Its steps follow the
  source: the status is stripped when it is neither \<open>null\<close> nor \<open>undefined\<close>, then
  prefixed with the id (through a template literal, so a missing status prints as
  \<open>undefined\<close>), a percentage of \<open>100\<close> is replaced by \<open>undefined\<close>, and the error is
  \<open>errorDetail?.message ?? error\<close>.
\<close>

definition pullProgressAdapter :: "pullEvent \<Rightarrow> event" where
  "pullProgressAdapter ev =
     (let status1 = (case p_status ev of Val s \<Rightarrow> Val (stripStatusPrefix s) | v \<Rightarrow> v);
          status2 = (case p_id ev of Val i \<Rightarrow> Val (i @ '': '' @ toStr status1) | _ \<Rightarrow> status1);
          percentage = (if p_percentage ev = Val (Finite 100) then Undefined else p_percentage ev);
          msg = (case p_errorDetail ev of Val d \<Rightarrow> message d | _ \<Rightarrow> Undefined)
      in \<lparr> status = status2, progress = percentage,
           error = (if nullish msg then p_error ev else msg) \<rparr>)"

subsection \<open>\<open>buildProgressAdapter\<close>\<close>












section \<open>Renderers\<close>

subsection \<open>The terminal and the helpers the renderers call\<close>

text \<open>
  The terminal is an external collaborator: the model records the operations sent to it.
  Colouring, truncation to the window width, the display width of a string and the
  formatting of a duration come from libraries; they are parameters of the model, as are
  the clock and the window width read at the time of a call.
\<close>

datatype ttyOp =
  HideCursor | ShowCursor | DeleteToEnd | ClearLine
  | Write string | WriteLine string | CursorUp nat

record helpers =
  blue :: "string \<Rightarrow> string"
  bold :: "string \<Rightarrow> string"
  cliTruncate :: "string \<Rightarrow> nat \<Rightarrow> string"
  stringWidth :: "string \<Rightarrow> nat"
  formatDuration :: "int \<Rightarrow> string"

record terminal =
  now :: int
  windowWidth :: nat

definition padEnd :: "string \<Rightarrow> nat \<Rightarrow> string" where
  "padEnd s n = s @ replicate (n - length s) (CHR '' '')"

definition padStart :: "string \<Rightarrow> nat \<Rightarrow> string" where
  "padStart s n = replicate (n - length s) (CHR '' '') @ s"

text \<open>\<open>createSpinner\<close>: the closure's counter \<open>index\<close> selects one of \<open>|/-\\<close>.\<close>

definition spinnerChar :: "nat \<Rightarrow> char" where
  "spinnerChar index = [CHR ''|'', CHR ''/'', CHR ''-'', CHR 0x5C] ! (index mod 4)"

text \<open>
  \<open>renderProgressBar\<close>: the percentage is clamped to \<open>0..100\<close>; \<open>NaN\<close> passes the
  clamp and gives empty repetitions.
\<close>

definition clampPercentage :: "jsnum \<Rightarrow> jsnum" where
  "clampPercentage p =
     (case p of
        Finite i \<Rightarrow> Finite (max 0 (min 100 i))
      | Infinity \<Rightarrow> Finite 100
      | NegInfinity \<Rightarrow> Finite 0
      | NaN \<Rightarrow> NaN)"

definition renderProgressBar :: "jsnum \<Rightarrow> nat \<Rightarrow> string" where
  "renderProgressBar percentage stepCount =
     (let p = clampPercentage percentage;
          barCount = (case p of Finite i \<Rightarrow> (stepCount * nat i) div 100 | _ \<Rightarrow> 0);
          spaceCount = (case p of Finite i \<Rightarrow> stepCount - barCount | _ \<Rightarrow> 0);
          bar = ''['' @ replicate barCount (CHR ''='') @ ''>'' @ replicate spaceCount (CHR '' '') @ '']''
      in bar @ '' '' @ padStart (numberToString p) 3 @ ''%'')"

subsection \<open>\<open>BuildProgressUI\<close>, the interactive renderer\<close>

text \<open>
  The fields of the object, together with what it owns outside itself: the operations
  sent to the terminal so far, the number of times its interrupt handler is registered
  on the process, and the interval timers it has running.
\<close>

record buildProgressUI =
  uiServices :: "string list"
  uiServiceToDataMap :: "string \<Rightarrow> event option"
  uiPrefix :: string
  uiPrefixWidth :: nat
  uiMaxLineWidth :: "nat option"
  uiLineWidths :: "nat option list"
  uiStartTime :: "int option"
  uiEnded :: bool
  uiCancelled :: bool
  uiSpinner :: nat
  uiRunloop :: "nat option"
  uiTty :: "ttyOp list"
  uiSigintListeners :: nat
  uiTimers :: "nat list"
  uiNextTimer :: nat

definition newBuildProgressUI :: "helpers \<Rightarrow> string list \<Rightarrow> buildProgressUI" where
  "newBuildProgressUI h services =
     (let pre = blue h ''[Build]'' @ ''   '' in
      \<lparr> uiServices = services,
        uiServiceToDataMap = (\<lambda>s. None),
        uiPrefix = pre,
        uiPrefixWidth = 10 + length pre + foldr max (map length services) 0,
        uiMaxLineWidth = None,
        uiLineWidths = [],
        uiStartTime = None,
        uiEnded = False,
        uiCancelled = False,
        uiSpinner = 0,
        uiRunloop = None,
        uiTty = [],
        uiSigintListeners = 0,
        uiTimers = [],
        uiNextTimer = 0 \<rparr>)"

definition uiHandleEvent :: "string \<Rightarrow> event \<Rightarrow> buildProgressUI \<Rightarrow> buildProgressUI" where
  "uiHandleEvent service ev r =
     r \<lparr> uiServiceToDataMap := (uiServiceToDataMap r)(service \<mapsto> ev) \<rparr>"

definition uiStart :: "terminal \<Rightarrow> buildProgressUI \<Rightarrow> buildProgressUI" where
  "uiStart t r =
     (let r1 = r \<lparr> uiSigintListeners := Suc (uiSigintListeners r),
                    uiTty := uiTty r @ [HideCursor] \<rparr>;
          r2 = foldl (\<lambda>acc service.
                        uiHandleEvent service
                          \<lparr> status = Val ''Preparing...'', progress = Undefined, error = Undefined \<rparr> acc)
                     r1 (uiServices r1)
      in r2 \<lparr> uiRunloop := Some (uiNextTimer r2),
               uiTimers := uiNextTimer r2 # uiTimers r2,
               uiNextTimer := Suc (uiNextTimer r2),
               uiStartTime := Some (now t) \<rparr>)"

definition uiClear :: "terminal \<Rightarrow> buildProgressUI \<Rightarrow> buildProgressUI" where
  "uiClear t r =
     r \<lparr> uiTty := uiTty r @ [DeleteToEnd], uiMaxLineWidth := Some (windowWidth t) \<rparr>"

definition uiGetServiceSummary :: "buildProgressUI \<Rightarrow> string \<Rightarrow> string js" where
  "uiGetServiceSummary r service =
     (let e = (case uiServiceToDataMap r service of
                 Some ev \<Rightarrow> ev
               | None \<Rightarrow> \<lparr> status = Undefined, progress = Undefined, error = Undefined \<rparr>)
      in Val (if truthyStr (error e) then toStr (error e)
              else if truthyNum (progress e) then
                (let bar = renderProgressBar (case progress e of Val p \<Rightarrow> p | _ \<Rightarrow> NaN) 20
                 in if truthyStr (status e) then bar @ '' '' @ toStr (status e) else bar)
              else if truthyStr (status e) then toStr (status e)
              else ''Waiting...''))"

definition serviceCountStr :: "nat \<Rightarrow> string" where
  "serviceCountStr n = (if n = 1 then ''1 service'' else showNat n @ '' services'')"

definition durationStr :: "helpers \<Rightarrow> terminal \<Rightarrow> int option \<Rightarrow> string" where
  "durationStr h t startTime =
     (case startTime of
        None \<Rightarrow> ''unknown time''
      | Some t0 \<Rightarrow> formatDuration h ((now t - t0) div 1000))"

definition uiRenderStatus :: "helpers \<Rightarrow> terminal \<Rightarrow> bool \<Rightarrow> buildProgressUI \<Rightarrow> buildProgressUI" where
  "uiRenderStatus h t isEnd r =
     (let out = uiTty r @ [ClearLine, Write (uiPrefix r)] in
      if isEnd \<and> uiCancelled r then r \<lparr> uiTty := out @ [WriteLine ''Build cancelled''] \<rparr>
      else if isEnd then
        r \<lparr> uiTty := out @ [WriteLine (''Built '' @ serviceCountStr (length (uiServices r))
                                         @ '' in '' @ durationStr h t (uiStartTime r))] \<rparr>
      else
        r \<lparr> uiTty := out @ [WriteLine (''Building services... '' @ [spinnerChar (uiSpinner r)])],
            uiSpinner := Suc (uiSpinner r) \<rparr>)"

text \<open>\<open>_lineWidths[index] = n\<close>: an assignment past the end extends the array.\<close>

definition setIndex :: "'a option list \<Rightarrow> nat \<Rightarrow> 'a \<Rightarrow> 'a option list" where
  "setIndex xs i v =
     (if i < length xs then xs[i := Some v] else xs @ replicate (i - length xs) None @ [Some v])"

definition uiRenderLine ::
  "helpers \<Rightarrow> (string \<Rightarrow> string js) \<Rightarrow> buildProgressUI \<Rightarrow> nat \<times> string \<Rightarrow> buildProgressUI" where
  "uiRenderLine h serviceToStrMap r entry =
     (case entry of
        (index, service) \<Rightarrow>
          let str0 = padEnd (uiPrefix r @ bold h service) (uiPrefixWidth r)
                       @ toStr (serviceToStrMap service);
              str = (case uiMaxLineWidth r of Some w \<Rightarrow> cliTruncate h str0 w | None \<Rightarrow> str0)
          in r \<lparr> uiLineWidths := setIndex (uiLineWidths r) index (stringWidth h str),
                  uiTty := uiTty r @ [ClearLine, WriteLine str] \<rparr>)"

definition uiRenderSummary ::
  "helpers \<Rightarrow> (string \<Rightarrow> string js) \<Rightarrow> buildProgressUI \<Rightarrow> buildProgressUI" where
  "uiRenderSummary h serviceToStrMap r =
     foldl (uiRenderLine h serviceToStrMap) r (enumerate 0 (uiServices r))"

definition uiDisplay :: "helpers \<Rightarrow> terminal \<Rightarrow> buildProgressUI \<Rightarrow> buildProgressUI" where
  "uiDisplay h t r =
     (let r1 = uiClear t r;
          r2 = uiRenderStatus h t False r1;
          r3 = uiRenderSummary h (uiGetServiceSummary r2) r2
      in r3 \<lparr> uiTty := uiTty r3 @ [CursorUp (length (uiServices r3) + 1)] \<rparr>)"

text \<open>
  \<open>end(summary = null)\<close>. A runloop, when there is one, is ended: its interval is
  cleared (its \<open>onEnd\<close> does nothing).
\<close>

definition uiEnd ::
  "helpers \<Rightarrow> terminal \<Rightarrow> (string \<Rightarrow> string js) option \<Rightarrow> buildProgressUI \<Rightarrow> buildProgressUI" where
  "uiEnd h t summary r =
     (if uiEnded r then r
      else
        let r1 = r \<lparr> uiEnded := True,
                      uiSigintListeners := uiSigintListeners r - 1,
                      uiTimers := (case uiRunloop r of
                                     Some timerId \<Rightarrow> removeAll timerId (uiTimers r)
                                   | None \<Rightarrow> uiTimers r),
                      uiRunloop := None \<rparr>;
            r2 = uiClear t r1;
            r3 = uiRenderStatus h t True r2;
            r4 = uiRenderSummary h
                   (case summary of Some m \<Rightarrow> m | None \<Rightarrow> uiGetServiceSummary r3) r3
        in r4 \<lparr> uiTty := uiTty r4 @ [ShowCursor] \<rparr>)"

text \<open>
  \<open>_handleInterrupt\<close> marks the run cancelled and ends the renderer; the process then
  exits with status \<open>130\<close>, which is the second component.
\<close>

definition uiHandleInterrupt :: "helpers \<Rightarrow> terminal \<Rightarrow> buildProgressUI \<Rightarrow> buildProgressUI \<times> nat" where
  "uiHandleInterrupt h t r = (uiEnd h t None (r \<lparr> uiCancelled := True \<rparr>), 130)"

subsection \<open>\<open>BuildProgressInline\<close>, the inline renderer\<close>

text \<open>
  The output stream is the list of the strings written to it. The summary handed to
  \<open>end\<close> maps a service to a value that \<open>_renderEvent\<close> destructures: a structured
  event gives its \<open>status\<close> and \<open>error\<close>, a string has neither property, and a
  missing entry makes the destructuring throw a \<open>TypeError\<close>.
\<close>

record buildProgressInline =
  inServices :: "string list"
  inPrefixWidth :: nat
  inStartTime :: "int option"
  inEnded :: bool
  inOutStream :: "string list"

definition newBuildProgressInline :: "string list \<Rightarrow> buildProgressInline" where
  "newBuildProgressInline services =
     \<lparr> inServices = services,
       inPrefixWidth = 10 + foldr max (map length services) 0,
       inStartTime = None,
       inEnded = False,
       inOutStream = [] \<rparr>"

definition inRenderEvent ::
  "helpers \<Rightarrow> string \<Rightarrow> payload option \<Rightarrow> buildProgressInline \<Rightarrow> error + buildProgressInline" where
  "inRenderEvent h service ev r =
     (case ev of
        None \<Rightarrow> Inl (TypeError ''Cannot destructure property status of undefined'')
      | Some data \<Rightarrow>
          let e = (case data of
                     Obj e \<Rightarrow> e
                   | Str s \<Rightarrow> \<lparr> status = Undefined, progress = Undefined, error = Undefined \<rparr>);
              str = (if truthyStr (error e) then toStr (error e)
                     else if truthyStr (status e) then toStr (status e)
                     else ''Waiting...'')
          in Inr (r \<lparr> inOutStream := inOutStream r
                         @ [padEnd (bold h service) (inPrefixWidth r), str, [newline]] \<rparr>))"

definition inStart :: "helpers \<Rightarrow> terminal \<Rightarrow> buildProgressInline \<Rightarrow> buildProgressInline" where
  "inStart h t r =
     (let r1 = r \<lparr> inOutStream := inOutStream r @ [''Building services...'' @ [newline]] \<rparr>;
          r2 = foldl (\<lambda>acc service.
                        case inRenderEvent h service
                               (Some (Obj \<lparr> status = Val ''Preparing...'', progress = Undefined,
                                            error = Undefined \<rparr>)) acc of
                          Inr acc' \<Rightarrow> acc' | Inl _ \<Rightarrow> acc)
                     r1 (inServices r1)
      in r2 \<lparr> inStartTime := Some (now t) \<rparr>)"

text \<open>
  The loop over the services in \<open>end\<close>: it stops at the first throw, and what was
  written before stays written.
\<close>

fun inRenderAll ::
  "helpers \<Rightarrow> (string \<Rightarrow> payload option) \<Rightarrow> string list \<Rightarrow> buildProgressInline
     \<Rightarrow> error option \<times> buildProgressInline" where
  "inRenderAll h summary [] r = (None, r)"
| "inRenderAll h summary (service # rest) r =
     (case inRenderEvent h service (summary service) r of
        Inl e \<Rightarrow> (Some e, r)
      | Inr r' \<Rightarrow> inRenderAll h summary rest r')"

text \<open>
  \<open>end(summary = null)\<close>: the renderer afterwards, and the error thrown, if any.
\<close>

definition inEnd ::
  "helpers \<Rightarrow> terminal \<Rightarrow> (string \<Rightarrow> payload option) option \<Rightarrow> buildProgressInline
     \<Rightarrow> error option \<times> buildProgressInline" where
  "inEnd h t summary r =
     (if inEnded r then (None, r)
      else
        let r1 = r \<lparr> inEnded := True \<rparr> in
        case (case summary of
                Some m \<Rightarrow> inRenderAll h m (inServices r1) r1
              | None \<Rightarrow> (None, r1)) of
          (Some e, r2) \<Rightarrow> (Some e, r2)
        | (None, r2) \<Rightarrow>
            (None, r2 \<lparr> inOutStream := inOutStream r2
                          @ [''Built '' @ serviceCountStr (length (inServices r2)) @ '' in ''
                             @ durationStr h t (inStartTime r2) @ [newline]] \<rparr>))"

section \<open>Build scheduler: the options of a build task\<close>

subsection \<open>Option values and lodash's \<open>merge\<close>\<close>













subsection \<open>The scheduler's step on one task\<close>







section \<open>Release and push pipeline\<close>

subsection \<open>Records of the pipeline\<close>


record serviceImage =
  siId :: nat
  is_stored_at__image_location :: string
  image_size :: "nat js"
  content_hash :: "string js"
  build_log :: "string js"
  dockerfile :: "string js"
  project_type :: "string js"
  start_timestamp :: "int js"
  end_timestamp :: "int js"
  push_timestamp :: "int js"
  siStatus :: "string js"
  error_message :: "string js"

record release =
  relId :: "nat js"
  relStatus :: "string js"
  relEndTimestamp :: "int js"



datatype registryToken = Token "string js" | EmptyToken


record backend =
  createReleaseResult :: "error + (release \<times> (string \<Rightarrow> serviceImage option))"
  dockerTag :: "string \<Rightarrow> string \<Rightarrow> string \<Rightarrow> error + unit"
  pineGet :: "error + string list list"
  getRegistryAndName :: "string \<Rightarrow> error + string"
  tokenRequest :: "string \<Rightarrow> string list \<Rightarrow> error + string js"
  inspectSize :: "string \<Rightarrow> error + nat"
  pushAttempt :: "string \<Rightarrow> registryToken \<Rightarrow> nat \<Rightarrow> error + string"
  updateImage :: "serviceImage \<Rightarrow> error + unit"
  removeImage :: "string \<Rightarrow> error + unit"
  updateRelease :: "release \<Rightarrow> error + unit"
  pushTime :: "string \<Rightarrow> int"
  endTime :: int



subsection \<open>\<open>tagServiceImages\<close>\<close>







subsection \<open>\<open>getPreviousRepos\<close> and \<open>authorizePush\<close>\<close>



text \<open>
  \<open>authorizePush\<close>: a token is requested for the pull and push scopes of the current
  and the previous repositories; a failure of the request is replaced by the empty
  object (\<open>catchReturn({})\<close>).
\<close>

definition authorizePush :: "backend \<Rightarrow> string \<Rightarrow> string list \<Rightarrow> string list \<Rightarrow> registryToken" where
  "authorizePush be registry images previousRepos =
     (case tokenRequest be registry
             (map (\<lambda>repo. ''repository:'' @ repo @ '':pull,push'') (images @ previousRepos)) of
        Inl e \<Rightarrow> EmptyToken
      | Inr token \<Rightarrow> Token token)"

subsection \<open>\<open>pushAndUpdateServiceImages\<close>\<close>






subsection \<open>\<open>deployProject\<close>\<close>






section \<open>Auxiliary facts about digits and the step pattern\<close>


lemma digitChar_numerals:
  "digitChar 0 = CHR ''0''" "digitChar (Suc 0) = CHR ''1''" "digitChar 1 = CHR ''1''" "digitChar 2 = CHR ''2''"
  "digitChar 3 = CHR ''3''" "digitChar 4 = CHR ''4''" "digitChar 5 = CHR ''5''"
  "digitChar 6 = CHR ''6''" "digitChar 7 = CHR ''7''" "digitChar 8 = CHR ''8''"
  "digitChar 9 = CHR ''9''"
  by (simp_all add: digitChar_def char_of_eq_iff take_bit_eq_mod)


declare showNat.simps [simp del]












lemma not_tagged: "\<not> prefix ''Successfully tagged '' (''Step '' @ xs)"
  by simp



section \<open>Auxiliary facts about the log truncation\<close>

lemma lastIndexOf_replicate: "c \<noteq> d \<Longrightarrow> lastIndexOf (replicate n c) d = - 1"
  by (induction n) auto

lemma slice0_replicate_minus1: "slice0 (replicate len c) (- 1) = replicate (len - 1) c"
proof -
  have "nat (int len - 1) = len - 1" by arith
  then show ?thesis by (simp add: slice0_def min_def)
qed

lemma truncateString_no_newline:
  assumes "c \<noteq> newline" and "len \<le> n"
  shows "truncateString (replicate n c) len = replicate (len - 1) c"
proof -
  have "slice0 (replicate n c) (int len) = replicate len c"
    using assms(2) by (simp add: slice0_def min_def)
  then show ?thesis
    using assms by (simp add: truncateString_def lastIndexOf_replicate slice0_replicate_minus1)
qed

lemma lastIndexOf_range: "- 1 \<le> lastIndexOf s c \<and> lastIndexOf s c < int (length s)"
  by (induction s) (auto simp: Let_def)

lemma lastIndexOf_hit: "0 \<le> lastIndexOf s c \<Longrightarrow> s ! nat (lastIndexOf s c) = c"
  by (induction s) (auto simp: Let_def nat_add_distrib split: if_splits)

lemma lastIndexOf_miss: "lastIndexOf s c < 0 \<longleftrightarrow> c \<notin> set s"
  by (induction s) (auto simp: Let_def)

text \<open>
  What the truncation does on the inputs it was written for: a string shorter than the
  cap is returned as it is, and when one of the first \<open>len\<close> characters is a newline
  the result is the prefix that ends just before the last such newline.
\<close>

lemma truncateString_short: "length str < len \<Longrightarrow> truncateString str len = str"
  by (simp add: truncateString_def)

lemma truncateString_line:
  assumes "len \<le> length str" and "newline \<in> set (take len str)"
  shows "\<exists>k < len. truncateString str len = take k str \<and> str ! k = newline"
proof -
  let ?s = "take len str"
  let ?r = "lastIndexOf ?s newline"
  have r0: "0 \<le> ?r" using assms(2) lastIndexOf_miss [of ?s newline] by simp
  have rl: "?r < int (length ?s)" using lastIndexOf_range [of ?s newline] by simp
  then have kl: "nat ?r < len" using r0 by simp
  have "truncateString str len = take (nat ?r) ?s"
    using assms(1) r0 by (simp add: truncateString_def slice0_def Let_def)
  also have "\<dots> = take (nat ?r) str" using kl by (simp add: min_def)
  finally have a: "truncateString str len = take (nat ?r) str" .
  have "?s ! nat ?r = newline" using r0 by (rule lastIndexOf_hit)
  then have b: "str ! nat ?r = newline" using kl by simp
  from kl a b show ?thesis by blast
qed

section \<open>Auxiliary facts about the renderers\<close>

lemma uiRenderSummary_fields:
  "uiEnded (uiRenderSummary h m r) = uiEnded r \<and>
   uiSigintListeners (uiRenderSummary h m r) = uiSigintListeners r \<and>
   uiRunloop (uiRenderSummary h m r) = uiRunloop r \<and>
   uiTimers (uiRenderSummary h m r) = uiTimers r \<and>
   (\<exists>ops. uiTty (uiRenderSummary h m r) = uiTty r @ ops)"
proof -
  have "uiEnded (foldl (uiRenderLine h m) r xs) = uiEnded r \<and>
        uiSigintListeners (foldl (uiRenderLine h m) r xs) = uiSigintListeners r \<and>
        uiRunloop (foldl (uiRenderLine h m) r xs) = uiRunloop r \<and>
        uiTimers (foldl (uiRenderLine h m) r xs) = uiTimers r \<and>
        (\<exists>ops. uiTty (foldl (uiRenderLine h m) r xs) = uiTty r @ ops)" for xs
  proof (induction xs arbitrary: r)
    case Nil
    show ?case by simp
  next
    case (Cons x xs)
    obtain i s where x: "x = (i, s)" by (cases x)
    show ?case using Cons [of "uiRenderLine h m r x"]
      by (auto simp: x uiRenderLine_def Let_def)
  qed
  then show ?thesis unfolding uiRenderSummary_def by blast
qed

lemma uiEnd_ended: "uiEnded (uiEnd h t s r)"
  using uiRenderSummary_fields
  by (simp add: uiEnd_def Let_def uiClear_def uiRenderStatus_def)

lemma uiEnd_noop: "uiEnded r \<Longrightarrow> uiEnd h t s r = r"
  by (simp add: uiEnd_def)

lemma uiEnd_first:
  assumes "\<not> uiEnded r"
  shows "uiSigintListeners (uiEnd h t s r) = uiSigintListeners r - 1 \<and>
         uiRunloop (uiEnd h t s r) = None \<and>
         (\<forall>timerId. uiRunloop r = Some timerId \<longrightarrow> timerId \<notin> set (uiTimers (uiEnd h t s r))) \<and>
         (\<exists>ops. uiTty (uiEnd h t s r) =
            uiTty r @ [DeleteToEnd, ClearLine, Write (uiPrefix r),
                       WriteLine (if uiCancelled r then ''Build cancelled''
                                  else ''Built '' @ serviceCountStr (length (uiServices r))
                                         @ '' in '' @ durationStr h t (uiStartTime r))]
              @ ops @ [ShowCursor])"
proof -
  define r3 where "r3 = uiRenderStatus h t True (uiClear t
      (r \<lparr> uiEnded := True,
                      uiSigintListeners := uiSigintListeners r - 1,
                      uiTimers := (case uiRunloop r of
                                     Some timerId \<Rightarrow> removeAll timerId (uiTimers r)
                                   | None \<Rightarrow> uiTimers r),
                      uiRunloop := None \<rparr>))"
  define m where "m = (case s of Some m \<Rightarrow> m | None \<Rightarrow> uiGetServiceSummary r3)"
  have e: "uiEnd h t s r = (uiRenderSummary h m r3) \<lparr> uiTty := uiTty (uiRenderSummary h m r3) @ [ShowCursor] \<rparr>"
    using assms unfolding uiEnd_def r3_def m_def Let_def by simp
  have f: "uiSigintListeners r3 = uiSigintListeners r - 1" "uiRunloop r3 = None"
    "uiTimers r3 = (case uiRunloop r of Some timerId \<Rightarrow> removeAll timerId (uiTimers r) | None \<Rightarrow> uiTimers r)"
    "uiTty r3 = uiTty r @ [DeleteToEnd, ClearLine, Write (uiPrefix r),
                       WriteLine (if uiCancelled r then ''Build cancelled''
                                  else ''Built '' @ serviceCountStr (length (uiServices r))
                                         @ '' in '' @ durationStr h t (uiStartTime r))]"
    by (simp_all add: r3_def uiRenderStatus_def uiClear_def Let_def)
  obtain ops where o: "uiTty (uiRenderSummary h m r3) = uiTty r3 @ ops"
    using uiRenderSummary_fields [of h m r3] by blast
  show ?thesis
    using uiRenderSummary_fields [of h m r3] 
    by (auto simp: e f o simp del: append.simps)
qed

lemma inRenderAll_fields:
  "inEnded (snd (inRenderAll h m xs r)) = inEnded r \<and>
   inServices (snd (inRenderAll h m xs r)) = inServices r \<and>
   inStartTime (snd (inRenderAll h m xs r)) = inStartTime r \<and>
   (\<exists>ws. inOutStream (snd (inRenderAll h m xs r)) = inOutStream r @ ws)"
proof (induction xs arbitrary: r)
  case Nil
  show ?case by simp
next
  case (Cons x xs)
  show ?case
  proof (cases "inRenderEvent h x (m x) r")
    case (Inl e)
    then show ?thesis by simp
  next
    case (Inr r')
    then have "inEnded r' = inEnded r \<and> inServices r' = inServices r \<and> inStartTime r' = inStartTime r \<and>
      (\<exists>ws. inOutStream r' = inOutStream r @ ws)"
      by (auto simp: inRenderEvent_def Let_def split: option.splits)
    then show ?thesis using Cons [of r'] Inr by auto
  qed
qed

lemma inEnd_ended: "inEnded (snd (inEnd h t s r))"
proof (cases "inEnded r")
  case True
  then show ?thesis by (simp add: inEnd_def)
next
  case False
  show ?thesis
  proof (cases s)
    case None
    then show ?thesis using False by (simp add: inEnd_def)
  next
    case (Some m)
    have "inEnded (snd (inRenderAll h m (inServices r) (r \<lparr> inEnded := True \<rparr>)))"
      using inRenderAll_fields [of h m "inServices r" "r \<lparr> inEnded := True \<rparr>"] by simp
    then show ?thesis using False Some
      by (auto simp: inEnd_def Let_def split: prod.splits option.splits)
  qed
qed

lemma inEnd_noop: "inEnded r \<Longrightarrow> inEnd h t s r = (None, r)"
  by (simp add: inEnd_def)

lemma inEnd_first:
  assumes "\<not> inEnded r" and "fst (inEnd h t s r) = None"
  shows "\<exists>ws. inOutStream (snd (inEnd h t s r)) =
           inOutStream r @ ws @ [''Built '' @ serviceCountStr (length (inServices r)) @ '' in ''
                             @ durationStr h t (inStartTime r) @ [newline]]"
proof (cases s)
  case None
  then show ?thesis using assms by (simp add: inEnd_def)
next
  case (Some m)
  obtain e r2 where p: "inRenderAll h m (inServices r) (r \<lparr> inEnded := True \<rparr>) = (e, r2)"
    by (cases "inRenderAll h m (inServices r) (r \<lparr> inEnded := True \<rparr>)")
  have e: "e = None" using assms Some p by (cases e) (simp_all add: inEnd_def)
  obtain ws where "inOutStream r2 = inOutStream r @ ws" "inServices r2 = inServices r" "inStartTime r2 = inStartTime r"
    using inRenderAll_fields [of h m "inServices r" "r \<lparr> inEnded := True \<rparr>"] p by auto
  then show ?thesis using assms Some p e by (simp add: inEnd_def)
qed

lemma uiRenderLine_fields:
  assumes "uiMaxLineWidth r = Some w"
  shows "uiPrefix (uiRenderLine h m r x) = uiPrefix r"
    and "uiPrefixWidth (uiRenderLine h m r x) = uiPrefixWidth r"
    and "uiMaxLineWidth (uiRenderLine h m r x) = Some w"
    and "uiTty (uiRenderLine h m r x) =
     uiTty r @ [ClearLine,
                WriteLine (cliTruncate h (padEnd (uiPrefix r @ bold h (snd x)) (uiPrefixWidth r)
                                                        @ toStr (m (snd x))) w)]"
  using assms by (cases x; simp add: uiRenderLine_def Let_def)+

lemma uiRenderLines_tty:
  assumes "uiMaxLineWidth r = Some w"
  shows "uiTty (foldl (uiRenderLine h m) r xs) =
     uiTty r @ concat (map (\<lambda>x. [ClearLine,
                WriteLine (cliTruncate h (padEnd (uiPrefix r @ bold h (snd x)) (uiPrefixWidth r)
                                                        @ toStr (m (snd x))) w)]) xs)"
  using assms
proof (induction xs arbitrary: r)
  case Nil
  show ?case by simp
next
  case (Cons x xs)
  note f = uiRenderLine_fields [OF Cons.prems, of h m x]
  show ?case
    using Cons.IH [OF f(3)] by (simp add: f)
qed

lemma uiRenderSummary_tty:
  assumes "uiMaxLineWidth r = Some w"
  shows "uiTty (uiRenderSummary h m r) =
     uiTty r @ concat (map (\<lambda>service. [ClearLine,
                WriteLine (cliTruncate h (padEnd (uiPrefix r @ bold h service) (uiPrefixWidth r)
                                                        @ toStr (m service)) w)]) (uiServices r))"
proof -
  have a: "map (\<lambda>x. f (snd x)) (enumerate n ys) = map f ys" for f :: "string \<Rightarrow> ttyOp list" and ys n
    by (induction ys arbitrary: n) simp_all
  show ?thesis
    unfolding uiRenderSummary_def uiRenderLines_tty [OF assms]
    using a [of "\<lambda>service. [ClearLine,
                WriteLine (cliTruncate h (padEnd (uiPrefix r @ bold h service) (uiPrefixWidth r)
                                                        @ toStr (m service)) w)]" 0 "uiServices r"]
    by simp
qed

lemma uiGetServiceSummary_cong:
  "uiServiceToDataMap r' = uiServiceToDataMap r \<Longrightarrow> uiGetServiceSummary r' = uiGetServiceSummary r"
  by (rule ext) (simp add: uiGetServiceSummary_def)

lemma uiEnd_render:
  assumes "\<not> uiEnded r"
  shows "uiTty (uiEnd h t s r) =
            uiTty r @ [DeleteToEnd, ClearLine, Write (uiPrefix r),
                       WriteLine (if uiCancelled r then ''Build cancelled''
                                  else ''Built '' @ serviceCountStr (length (uiServices r))
                                         @ '' in '' @ durationStr h t (uiStartTime r))]
              @ concat (map (\<lambda>service.
                   [ClearLine,
                    WriteLine (cliTruncate h
                       (padEnd (uiPrefix r @ bold h service) (uiPrefixWidth r)
                          @ toStr ((case s of Some m \<Rightarrow> m | None \<Rightarrow> uiGetServiceSummary r) service))
                       (windowWidth t))]) (uiServices r))
              @ [ShowCursor]"
proof -
  define r3 where "r3 = uiRenderStatus h t True (uiClear t
      (r \<lparr> uiEnded := True,
                      uiSigintListeners := uiSigintListeners r - 1,
                      uiTimers := (case uiRunloop r of
                                     Some timerId \<Rightarrow> removeAll timerId (uiTimers r)
                                   | None \<Rightarrow> uiTimers r),
                      uiRunloop := None \<rparr>))"
  define m where "m = (case s of Some m \<Rightarrow> m | None \<Rightarrow> uiGetServiceSummary r3)"
  have e: "uiEnd h t s r = (uiRenderSummary h m r3) \<lparr> uiTty := uiTty (uiRenderSummary h m r3) @ [ShowCursor] \<rparr>"
    using assms unfolding uiEnd_def r3_def m_def Let_def by simp
  have f: "uiPrefix r3 = uiPrefix r" "uiPrefixWidth r3 = uiPrefixWidth r"
    "uiMaxLineWidth r3 = Some (windowWidth t)" "uiServices r3 = uiServices r"
    "uiServiceToDataMap r3 = uiServiceToDataMap r"
    "uiTty r3 = uiTty r @ [DeleteToEnd, ClearLine, Write (uiPrefix r),
                       WriteLine (if uiCancelled r then ''Build cancelled''
                                  else ''Built '' @ serviceCountStr (length (uiServices r))
                                         @ '' in '' @ durationStr h t (uiStartTime r))]"
    by (simp_all add: r3_def uiRenderStatus_def uiClear_def Let_def)
  have g: "m = (case s of Some m \<Rightarrow> m | None \<Rightarrow> uiGetServiceSummary r)"
    unfolding m_def by (cases s) (simp_all add: uiGetServiceSummary_cong [OF f(5)])
  show ?thesis
    unfolding e by (simp add: uiRenderSummary_tty [OF f(3)] f g del: append.simps)
qed

lemma inRenderAll_exact:
  "inRenderAll h m xs r =
     ((if \<forall>service\<in>set xs. m service \<noteq> None then None
       else Some (TypeError ''Cannot destructure property status of undefined'')),
      r \<lparr> inOutStream := inOutStream r @ concat (map (\<lambda>service.
               [padEnd (bold h service) (inPrefixWidth r),
                (case m service of
                   Some (Obj e) \<Rightarrow> if truthyStr (error e) then toStr (error e)
                                  else if truthyStr (status e) then toStr (status e)
                                  else ''Waiting...''
                 | _ \<Rightarrow> ''Waiting...''),
                [newline]])
                (takeWhile (\<lambda>service. m service \<noteq> None) xs)) \<rparr>)"
proof -
  define line where "line = (\<lambda>pw service.
               [padEnd (bold h service) pw,
                (case m service of
                   Some (Obj e) \<Rightarrow> if truthyStr (error e) then toStr (error e)
                                  else if truthyStr (status e) then toStr (status e)
                                  else ''Waiting...''
                 | _ \<Rightarrow> ''Waiting...''),
                [newline]])"
  have "inRenderAll h m xs r =
     ((if \<forall>service\<in>set xs. m service \<noteq> None then None
       else Some (TypeError ''Cannot destructure property status of undefined'')),
      r \<lparr> inOutStream := inOutStream r @ concat (map (line (inPrefixWidth r))
                (takeWhile (\<lambda>service. m service \<noteq> None) xs)) \<rparr>)"
  proof (induction xs arbitrary: r)
    case Nil
    show ?case by simp
  next
    case (Cons x xs)
    show ?case
    proof (cases "m x")
      case None
      then show ?thesis by (simp add: inRenderEvent_def)
    next
      case (Some d)
      define r' where "r' = r \<lparr> inOutStream := inOutStream r @ line (inPrefixWidth r) x \<rparr>"
      have a: "inRenderEvent h x (m x) r = Inr r'"
        using Some by (cases d) (simp_all add: inRenderEvent_def Let_def r'_def line_def truthyStr_def)
      have b: "inPrefixWidth r' = inPrefixWidth r"
        by (simp add: r'_def)
      show ?thesis
        using Cons [of r'] a Some by (simp add: b) (simp add: r'_def)
    qed
  qed
  then show ?thesis unfolding line_def .
qed

lemma inEnd_render:
  assumes "\<not> inEnded r"
  shows "inEnd h t None r =
           (None, r \<lparr> inEnded := True,
                       inOutStream := inOutStream r
                          @ [''Built '' @ serviceCountStr (length (inServices r)) @ '' in ''
                             @ durationStr h t (inStartTime r) @ [newline]] \<rparr>)"
    and "inEnd h t (Some m) r =
     ((if \<forall>service\<in>set (inServices r). m service \<noteq> None then None
       else Some (TypeError ''Cannot destructure property status of undefined'')),
      r \<lparr> inEnded := True,
          inOutStream := inOutStream r @ concat (map (\<lambda>service.
               [padEnd (bold h service) (inPrefixWidth r),
                (case m service of
                   Some (Obj e) \<Rightarrow> if truthyStr (error e) then toStr (error e)
                                  else if truthyStr (status e) then toStr (status e)
                                  else ''Waiting...''
                 | _ \<Rightarrow> ''Waiting...''),
                [newline]])
                (takeWhile (\<lambda>service. m service \<noteq> None) (inServices r)))
            @ (if \<forall>service\<in>set (inServices r). m service \<noteq> None
               then [''Built '' @ serviceCountStr (length (inServices r)) @ '' in ''
                             @ durationStr h t (inStartTime r) @ [newline]]
               else []) \<rparr>)"
  using assms by (simp_all add: inEnd_def inRenderAll_exact)

section \<open>Auxiliary facts about the emulator provisioning\<close>

lemma getQemuPath_cases:
  "getQemuPath env arch w = (r, w') \<Longrightarrow>
     files w' = files w \<and> requests w' = requests w \<and> logged w' = logged w \<and>
     (case r of Inl e \<Rightarrow> w' = w
      | Inr p \<Rightarrow> (\<exists>binDir. binDirectory env = Inr binDir \<and> p = pathJoin binDir (qemuFileName arch)
                  \<and> binDir \<in> dirs w' \<and> dirs w' = insert binDir (dirs w)))"
  by (auto simp: getQemuPath_def split: sum.splits if_splits option.splits)

lemma getQemuPath_again:
  "getQemuPath env arch w = (Inr p, w') \<Longrightarrow> dirs w'' = dirs w' \<Longrightarrow>
     getQemuPath env arch w'' = (Inr p, w'')"
  by (auto simp: getQemuPath_def split: sum.splits if_splits option.splits)

lemma platformNeedsQemu_effect:
  "platformNeedsQemu env w = (r, w') \<Longrightarrow>
     files w' = files w \<and> requests w' = requests w \<and> dirs w' = dirs w"
  by (auto simp: platformNeedsQemu_def split: sum.splits if_splits)

lemma platformNeedsQemu_again:
  "platformNeedsQemu env w = (r, w') \<Longrightarrow> fst (platformNeedsQemu env w'') = r"
  by (auto simp: platformNeedsQemu_def split: sum.splits if_splits)

lemma installQemu_effect:
  assumes i: "installQemu env arch w = (r, w')" and g: "getQemuPath env arch w = (Inr p, w1)"
  shows "files w' p \<noteq> None \<and> dirs w' = dirs w1 \<and>
     (requests w' = requests w \<or> (\<exists>url. requests w' = requests w @ [url])) \<and>
     (r = Inr () \<longrightarrow> (\<exists>variant. balenaArchToQemuArch arch = Inr variant \<and>
                          requests w' = requests w @ [qemuUrl variant]))"
proof -
  have rq: "requests w1 = requests w" using getQemuPath_cases [OF g] by simp
  let ?w2 = "createWriteStream p w1"
  have w2: "files ?w2 p \<noteq> None" "dirs ?w2 = dirs w1" "requests ?w2 = requests w"
    using rq by (simp_all add: createWriteStream_def)
  show ?thesis
  proof (cases "balenaArchToQemuArch arch")
    case (Inl e)
    then have "r = Inl e" and w': "w' = ?w2" using i g by (simp_all add: installQemu_def)
    have "files w' p \<noteq> None" "dirs w' = dirs w1" "requests w' = requests w"
      using w2 by (simp_all add: w')
    then show ?thesis using \<open>r = Inl e\<close> by simp
  next
    case (Inr variant)
    let ?w3 = "?w2 \<lparr> requests := requests ?w2 @ [qemuUrl variant] \<rparr>"
    show ?thesis
    proof (cases "fetch env (qemuUrl variant)")
      case (Inl e)
      then have "r = Inl e" and w': "w' = ?w3" using i g Inr by (simp_all add: installQemu_def Let_def)
      have "files w' p \<noteq> None" "dirs w' = dirs w1" "requests w' = requests w @ [qemuUrl variant]"
        using w2 by (simp_all add: w')
      then show ?thesis using \<open>r = Inl e\<close> by simp
    next
      case fetched: (Inr entries)
      then have r: "r = Inr ()"
        and w': "w' = ?w3 \<lparr> files := (files ?w3)(p \<mapsto>
                         \<lparr> content = extractBinary variant entries, mode = ''755'' \<rparr>) \<rparr>"
        using i g Inr by (simp_all add: installQemu_def Let_def)
      have "files w' p \<noteq> None" "dirs w' = dirs w1" "requests w' = requests w @ [qemuUrl variant]"
        using w2 by (simp_all add: w')
      then show ?thesis using Inr by simp
    qed
  qed
qed

lemma installQemuIfNeeded_not_needed:
  assumes "platformNeedsQemu env w = (Inr needs, wp)" and "\<not> emulated \<or> \<not> needs"
  shows "installQemuIfNeeded env emulated arch w = (Inr False, wp)"
  using assms by (auto simp: installQemuIfNeeded_def)

lemma installQemuIfNeeded_cached:
  assumes "platformNeedsQemu env w = (Inr True, wp)" and "emulated"
    and "getQemuPath env arch wp = (Inr p, wq)" and "files wq p \<noteq> None"
  shows "installQemuIfNeeded env emulated arch w = (Inr True, wq)"
  using assms by (auto simp: installQemuIfNeeded_def)

lemma installQemuIfNeeded_provisioned:
  assumes first: "installQemuIfNeeded env emulated arch w = (Inr b, w1)"
  shows "fst (installQemuIfNeeded env emulated arch w1) = Inr b \<and>
      requests (snd (installQemuIfNeeded env emulated arch w1)) = requests w1 \<and>
      files (snd (installQemuIfNeeded env emulated arch w1)) = files w1 \<and>
      dirs (snd (installQemuIfNeeded env emulated arch w1)) = dirs w1"
proof -
  obtain r wp where p: "platformNeedsQemu env w = (r, wp)" by (cases "platformNeedsQemu env w")
  then obtain needs where r: "r = Inr needs" using first
    by (cases r) (auto simp: installQemuIfNeeded_def)
  obtain r2 wp2 where p2: "platformNeedsQemu env w1 = (r2, wp2)" by (cases "platformNeedsQemu env w1")
  have r2: "r2 = Inr needs" using platformNeedsQemu_again [OF p, of w1] p2 r by simp
  have e2: "files wp2 = files w1" "requests wp2 = requests w1" "dirs wp2 = dirs w1"
    using platformNeedsQemu_effect [OF p2] by simp_all
  show ?thesis
  proof (cases "\<not> emulated \<or> \<not> needs")
    case True
    have "b = False" using first installQemuIfNeeded_not_needed [OF p [unfolded r] True, of arch] by simp
    moreover have "installQemuIfNeeded env emulated arch w1 = (Inr False, wp2)"
      using p2 r2 True by (intro installQemuIfNeeded_not_needed) simp_all
    ultimately show ?thesis using e2 by simp
  next
    case False
    then have em: "emulated" and ne: "needs" by simp_all
    obtain rq wq where q: "getQemuPath env arch wp = (rq, wq)" by (cases "getQemuPath env arch wp")
    then obtain path where rq: "rq = Inr path" using first p r em ne
      by (cases rq) (auto simp: installQemuIfNeeded_def)
    have q': "getQemuPath env arch wp = (Inr path, wq)" using q rq by simp
    have b: "b = True" using first p r em ne q'
      by (auto simp: installQemuIfNeeded_def split: if_splits prod.splits sum.splits)
    have w1: "files w1 path \<noteq> None \<and> dirs w1 = dirs wq"
    proof (cases "files wq path = None")
      case True
      let ?wl = "wq \<lparr> logged := logged wq @ [''Installing qemu for '' @ arch @ '' emulation...''] \<rparr>"
      obtain ri w3 where i: "installQemu env arch ?wl = (ri, w3)" by (cases "installQemu env arch ?wl")
      have "w3 = w1" using first p r em ne q' True i
        by (auto simp: installQemuIfNeeded_def split: sum.splits)
      moreover have "getQemuPath env arch ?wl = (Inr path, ?wl)"
        by (rule getQemuPath_again [OF q']) simp
      ultimately show ?thesis using installQemu_effect [OF i] by simp
    next
      case False
      then have "w1 = wq" using first p r em ne q' by (auto simp: installQemuIfNeeded_def)
      then show ?thesis using False by simp
    qed
    have g2: "getQemuPath env arch wp2 = (Inr path, wp2)"
      by (rule getQemuPath_again [OF q']) (simp add: e2 w1)
    have f: "files wp2 path \<noteq> None" using w1 e2 by simp
    have pp: "platformNeedsQemu env w1 = (Inr True, wp2)" using p2 r2 ne by simp
    have "installQemuIfNeeded env emulated arch w1 = (Inr True, wp2)"
      by (rule installQemuIfNeeded_cached [OF pp em g2 f])
    then show ?thesis using b e2 by simp
  qed
qed

lemma installQemuIfNeeded_requests:
  assumes first: "installQemuIfNeeded env emulated arch w = (r, w1)"
  shows "requests w1 = requests w \<or> (\<exists>url. requests w1 = requests w @ [url])"
proof -
  obtain rp wp where p: "platformNeedsQemu env w = (rp, wp)" by (cases "platformNeedsQemu env w")
  obtain rq wq where q: "getQemuPath env arch wp = (rq, wq)" by (cases "getQemuPath env arch wp")
  let ?wl = "wq \<lparr> logged := logged wq @ [''Installing qemu for '' @ arch @ '' emulation...''] \<rparr>"
  obtain ri w3 where i: "installQemu env arch ?wl = (ri, w3)" by (cases "installQemu env arch ?wl")
  have a: "requests wp = requests w" using platformNeedsQemu_effect [OF p] by simp
  have b: "requests wq = requests wp" using getQemuPath_cases [OF q] by simp
  have c: "rq = Inr path \<Longrightarrow> requests w3 = requests wq \<or> (\<exists>url. requests w3 = requests wq @ [url])" for path
  proof -
    assume "rq = Inr path"
    then have "getQemuPath env arch ?wl = (Inr path, ?wl)"
      using q by (intro getQemuPath_again [of env arch wp path wq]) simp_all
    then show ?thesis using installQemu_effect [OF i] by simp
  qed
  show ?thesis using first p q i a b c
    by (auto simp: installQemuIfNeeded_def split: sum.splits if_splits)
qed

lemma installQemuIfNeeded_cached_untouched:
  assumes "binDirectory env = Inr binDir" and "files w (pathJoin binDir (qemuFileName arch)) \<noteq> None"
  shows "requests (snd (installQemuIfNeeded env emulated arch w)) = requests w \<and>
      files (snd (installQemuIfNeeded env emulated arch w)) = files w"
proof -
  obtain rp wp where p: "platformNeedsQemu env w = (rp, wp)" by (cases "platformNeedsQemu env w")
  obtain rq wq where q: "getQemuPath env arch wp = (rq, wq)" by (cases "getQemuPath env arch wp")
  have a: "requests wp = requests w" "files wp = files w" using platformNeedsQemu_effect [OF p] by simp_all
  have b: "requests wq = requests w" "files wq = files w" using getQemuPath_cases [OF q] a by simp_all
  show ?thesis
  proof (cases rp)
    case (Inl e)
    then have "installQemuIfNeeded env emulated arch w = (Inl e, wp)"
      using p by (simp add: installQemuIfNeeded_def)
    then show ?thesis using a by simp
  next
    case (Inr needs)
    show ?thesis
    proof (cases "\<not> emulated \<or> \<not> needs")
      case True
      have "installQemuIfNeeded env emulated arch w = (Inr False, wp)"
        using p Inr True by (intro installQemuIfNeeded_not_needed [of env w needs]) simp_all
      then show ?thesis using a by simp
    next
      case False
      then have em: "emulated" and pp: "platformNeedsQemu env w = (Inr True, wp)"
        using p Inr by simp_all
      show ?thesis
      proof (cases rq)
        case (Inl e)
        then have "installQemuIfNeeded env emulated arch w = (Inl e, wq)"
          using pp em q by (simp add: installQemuIfNeeded_def)
        then show ?thesis using b by simp
      next
        case rq: (Inr path)
        then have "path = pathJoin binDir (qemuFileName arch)"
          using getQemuPath_cases [OF q] assms(1) by auto
        then have f: "files wq path \<noteq> None" using assms(2) b by simp
        have q': "getQemuPath env arch wp = (Inr path, wq)" using q rq by simp
        have "installQemuIfNeeded env emulated arch w = (Inr True, wq)"
          by (rule installQemuIfNeeded_cached [OF pp em q' f])
        then show ?thesis using b by simp
      qed
    qed
  qed
qed

lemma installQemuIfNeeded_installs_once:
  assumes first: "installQemuIfNeeded env emulated arch w = (Inr True, w1)"
    and "binDirectory env = Inr binDir" and "files w (pathJoin binDir (qemuFileName arch)) = None"
  shows "\<exists>variant. balenaArchToQemuArch arch = Inr variant \<and> requests w1 = requests w @ [qemuUrl variant]"
proof -
  obtain rp wp where p: "platformNeedsQemu env w = (rp, wp)" by (cases "platformNeedsQemu env w")
  obtain rq wq where q: "getQemuPath env arch wp = (rq, wq)" by (cases "getQemuPath env arch wp")
  let ?wl = "wq \<lparr> logged := logged wq @ [''Installing qemu for '' @ arch @ '' emulation...''] \<rparr>"
  obtain ri w3 where i: "installQemu env arch ?wl = (ri, w3)" by (cases "installQemu env arch ?wl")
  have a: "requests wp = requests w" "files wp = files w" using platformNeedsQemu_effect [OF p] by simp_all
  have b: "requests wq = requests w" "files wq = files w" using getQemuPath_cases [OF q] a by simp_all
  obtain needs where rp: "rp = Inr needs" using first p
    by (cases rp) (simp_all add: installQemuIfNeeded_def)
  have en: "emulated \<and> needs" using first p rp
    by (cases "emulated \<and> needs") (auto simp: installQemuIfNeeded_def)
  obtain path where rq: "rq = Inr path" using first p rp en q
    by (cases rq) (simp_all add: installQemuIfNeeded_def)
  have "path = pathJoin binDir (qemuFileName arch)"
    using getQemuPath_cases [OF q] assms(2) rq by auto
  then have f: "files wq path = None" using assms(3) b by simp
  have "ri = Inr () \<and> w3 = w1" using first p rp en q rq f i
    by (cases ri) (simp_all add: installQemuIfNeeded_def)
  moreover have "getQemuPath env arch ?wl = (Inr path, ?wl)"
    using q rq by (intro getQemuPath_again [of env arch wp path wq]) simp_all
  ultimately show ?thesis using installQemu_effect [OF i] b by simp
qed

section \<open>Auxiliary facts about the merge of options\<close>





















section \<open>Auxiliary facts about the release and push pipeline\<close>









text \<open>A token request that fails is not an error of the stage: the token is empty.\<close>

lemma authorizePush_degrades:
  "tokenRequest be registry
     (map (\<lambda>repo. ''repository:'' @ repo @ '':pull,push'') (images @ previousRepos)) = Inl e \<Longrightarrow>
   authorizePush be registry images previousRepos = EmptyToken"
  by (simp add: authorizePush_def)

section \<open>Properties of the emulator architecture mapping\<close>

text \<open>
  C4. The mapping is defined on a closed set only: \<open>armv7hf\<close>, \<open>rpi\<close> and
  \<open>armhf\<close> all give the variant \<open>arm\<close>, \<open>aarch64\<close> gives the different variant
  \<open>aarch64\<close>, and every other architecture name makes the function throw an error
  that names the architecture; no default variant is ever returned.
\<close>

theorem balenaArchToQemuArch_closed:
  "balenaArchToQemuArch ''armv7hf'' = Inr ''arm'' \<and>
   balenaArchToQemuArch ''rpi'' = Inr ''arm'' \<and>
   balenaArchToQemuArch ''armhf'' = Inr ''arm'' \<and>
   balenaArchToQemuArch ''aarch64'' = Inr ''aarch64'' \<and>
   balenaArchToQemuArch ''aarch64'' \<noteq> balenaArchToQemuArch ''armhf'' \<and>
   (arch \<notin> {''armv7hf'', ''rpi'', ''armhf'', ''aarch64''} \<longrightarrow>
      balenaArchToQemuArch arch =
        Inl (Error (''Cannot install emulator for architecture '' @ arch)))"
  by (simp add: balenaArchToQemuArch_def)

theorem balenaArchToQemuArch_closed_witness:
  "''amd64'' \<notin> {''armv7hf'', ''rpi'', ''armhf'', ''aarch64''} \<and>
   balenaArchToQemuArch ''amd64'' =
     Inl (Error ''Cannot install emulator for architecture amd64'')"
  using balenaArchToQemuArch_closed [of "''amd64''"] by simp

section \<open>The log truncation on a log without a newline\<close>

text \<open>
  C2. The claim is that a log longer than the cap is cut to a prefix that ends at a
  newline boundary. The code cuts at \<open>lastIndexOf('\n')\<close> of the first 512 KiB and
  does not treat the result \<open>-1\<close>: on a log of 524289 characters \<open>a\<close> (one line,
  one character over the cap) \<open>slice(0, -1)\<close> drops one character of the capped
  string. The result is 524287 characters long and is followed in the log by another
  \<open>a\<close>, not by a newline: the log is cut in the middle of its only line.
\<close>

theorem truncateString_cuts_mid_line:
  "truncateString (replicate 524289 (CHR ''a'')) LOG_LENGTH_MAX = replicate 524287 (CHR ''a'') \<and>
   replicate 524289 (CHR ''a'') ! 524287 \<noteq> newline \<and>
   newline \<notin> set (replicate 524289 (CHR ''a''))"
  by (simp add: truncateString_no_newline LOG_LENGTH_MAX_def newline_def)

section \<open>Properties of the build-progress adapter\<close>



section \<open>The final status of a release\<close>




section \<open>Per-image isolation of the push stage\<close>



section \<open>Repeated emulator provisioning\<close>

text \<open>
  C6. Provisioning is meant to be idempotent: two calls give one download and install,
  and the second call is a no-op on the cached binary. The code tests the existence of
  the file, and \<open>installQemu\<close> creates the file (by opening the write stream) before it
  maps the architecture and before it requests the archive. So a first call whose
  install fails leaves an empty file, which the second call takes for the cached binary.
  On an empty cache, with emulation wanted and needed: when the download fails (here
  for \<open>armv7hf\<close>), the first call is rejected with the error of the request and the
  second call, with the same daemon, settings and network, answers \<open>true\<close> without any
  request, the file being empty and not executable; for an architecture without an
  emulator variant (here \<open>i386\<close>), the first call is rejected with
  \<open>Cannot install emulator for architecture i386\<close> and the second answers \<open>true\<close>,
  no request having been made at all. In both runs the two calls give different
  answers and nothing is installed. (When the first call succeeds, the second call is a
  no-op: lemmas \<open>installQemuIfNeeded_provisioned\<close> and
  \<open>installQemuIfNeeded_installs_once\<close>.)
\<close>

theorem installQemuIfNeeded_failed_install_cached:
  "installQemuIfNeeded (\<lparr> info = Inr \<lparr> OperatingSystem = ''Ubuntu 18.04.2 LTS'', Architecture = ''x86_64'' \<rparr>, binDirectory = Inr ''/home/u/.balena/bin'', mkdirError = None, fetch = (\<lambda>url. Inl (Error ''ECONNRESET'')) \<rparr>) True ''armv7hf'' (\<lparr> files = (\<lambda>p. None), dirs = {}, requests = [], logged = [] \<rparr>)
     = (Inl (Error ''ECONNRESET''), \<lparr> files = (\<lambda>p. None)(''/home/u/.balena/bin/qemu-execve-armv7hf-v4.0.0+balena2'' \<mapsto> \<lparr> content = [], mode = ''666'' \<rparr>), dirs = {''/home/u/.balena/bin''}, requests = [''https://github.com/balena-io/qemu/releases/download/v4.0.0%2Bbalena2/qemu-4.0.0.balena2-arm.tar.gz''], logged = [''Installing qemu for armv7hf emulation...''] \<rparr>) \<and>
   installQemuIfNeeded (\<lparr> info = Inr \<lparr> OperatingSystem = ''Ubuntu 18.04.2 LTS'', Architecture = ''x86_64'' \<rparr>, binDirectory = Inr ''/home/u/.balena/bin'', mkdirError = None, fetch = (\<lambda>url. Inl (Error ''ECONNRESET'')) \<rparr>) True ''armv7hf'' (\<lparr> files = (\<lambda>p. None)(''/home/u/.balena/bin/qemu-execve-armv7hf-v4.0.0+balena2'' \<mapsto> \<lparr> content = [], mode = ''666'' \<rparr>), dirs = {''/home/u/.balena/bin''}, requests = [''https://github.com/balena-io/qemu/releases/download/v4.0.0%2Bbalena2/qemu-4.0.0.balena2-arm.tar.gz''], logged = [''Installing qemu for armv7hf emulation...''] \<rparr>)
     = (Inr True, \<lparr> files = (\<lambda>p. None)(''/home/u/.balena/bin/qemu-execve-armv7hf-v4.0.0+balena2'' \<mapsto> \<lparr> content = [], mode = ''666'' \<rparr>), dirs = {''/home/u/.balena/bin''}, requests = [''https://github.com/balena-io/qemu/releases/download/v4.0.0%2Bbalena2/qemu-4.0.0.balena2-arm.tar.gz''], logged = [''Installing qemu for armv7hf emulation...''] \<rparr>) \<and>
   installQemuIfNeeded (\<lparr> info = Inr \<lparr> OperatingSystem = ''Ubuntu 18.04.2 LTS'', Architecture = ''x86_64'' \<rparr>, binDirectory = Inr ''/home/u/.balena/bin'', mkdirError = None, fetch = (\<lambda>url. Inr [(''qemu-4.0.0+balena2-arm/qemu-arm-static'', ''ELF'')]) \<rparr>) True ''i386'' (\<lparr> files = (\<lambda>p. None), dirs = {}, requests = [], logged = [] \<rparr>)
     = (Inl (Error ''Cannot install emulator for architecture i386''), \<lparr> files = (\<lambda>p. None)(''/home/u/.balena/bin/qemu-execve-i386-v4.0.0+balena2'' \<mapsto> \<lparr> content = [], mode = ''666'' \<rparr>), dirs = {''/home/u/.balena/bin''}, requests = [], logged = [''Installing qemu for i386 emulation...''] \<rparr>) \<and>
   installQemuIfNeeded (\<lparr> info = Inr \<lparr> OperatingSystem = ''Ubuntu 18.04.2 LTS'', Architecture = ''x86_64'' \<rparr>, binDirectory = Inr ''/home/u/.balena/bin'', mkdirError = None, fetch = (\<lambda>url. Inr [(''qemu-4.0.0+balena2-arm/qemu-arm-static'', ''ELF'')]) \<rparr>) True ''i386'' (\<lparr> files = (\<lambda>p. None)(''/home/u/.balena/bin/qemu-execve-i386-v4.0.0+balena2'' \<mapsto> \<lparr> content = [], mode = ''666'' \<rparr>), dirs = {''/home/u/.balena/bin''}, requests = [], logged = [''Installing qemu for i386 emulation...''] \<rparr>)
     = (Inr True, \<lparr> files = (\<lambda>p. None)(''/home/u/.balena/bin/qemu-execve-i386-v4.0.0+balena2'' \<mapsto> \<lparr> content = [], mode = ''666'' \<rparr>), dirs = {''/home/u/.balena/bin''}, requests = [], logged = [''Installing qemu for i386 emulation...''] \<rparr>)"
proof -
  have os: "\<not> isDockerDesktop ''Ubuntu 18.04.2 LTS''"
    by code_simp
  show ?thesis
    using os
    by (simp add: installQemuIfNeeded_def platformNeedsQemu_def
        getQemuPath_def installQemu_def extractBinary_def createWriteStream_def balenaArchToQemuArch_def qemuUrl_def
        pathJoin_def qemuFileName_def QEMU_BIN_NAME_def QEMU_VERSION_def Let_def)
qed

theorem installQemuIfNeeded_failed_install_cached_witness:
  "fst (installQemuIfNeeded (\<lparr> info = Inr \<lparr> OperatingSystem = ''Ubuntu 18.04.2 LTS'', Architecture = ''x86_64'' \<rparr>, binDirectory = Inr ''/home/u/.balena/bin'', mkdirError = None, fetch = (\<lambda>url. Inl (Error ''ECONNRESET'')) \<rparr>) True ''armv7hf'' (\<lparr> files = (\<lambda>p. None), dirs = {}, requests = [], logged = [] \<rparr>)) = Inl (Error ''ECONNRESET'') \<and>
   fst (installQemuIfNeeded (\<lparr> info = Inr \<lparr> OperatingSystem = ''Ubuntu 18.04.2 LTS'', Architecture = ''x86_64'' \<rparr>, binDirectory = Inr ''/home/u/.balena/bin'', mkdirError = None, fetch = (\<lambda>url. Inl (Error ''ECONNRESET'')) \<rparr>) True ''armv7hf'' (snd (installQemuIfNeeded (\<lparr> info = Inr \<lparr> OperatingSystem = ''Ubuntu 18.04.2 LTS'', Architecture = ''x86_64'' \<rparr>, binDirectory = Inr ''/home/u/.balena/bin'', mkdirError = None, fetch = (\<lambda>url. Inl (Error ''ECONNRESET'')) \<rparr>) True ''armv7hf'' (\<lparr> files = (\<lambda>p. None), dirs = {}, requests = [], logged = [] \<rparr>)))) = Inr True \<and>
   requests (snd (installQemuIfNeeded (\<lparr> info = Inr \<lparr> OperatingSystem = ''Ubuntu 18.04.2 LTS'', Architecture = ''x86_64'' \<rparr>, binDirectory = Inr ''/home/u/.balena/bin'', mkdirError = None, fetch = (\<lambda>url. Inl (Error ''ECONNRESET'')) \<rparr>) True ''armv7hf'' (snd (installQemuIfNeeded (\<lparr> info = Inr \<lparr> OperatingSystem = ''Ubuntu 18.04.2 LTS'', Architecture = ''x86_64'' \<rparr>, binDirectory = Inr ''/home/u/.balena/bin'', mkdirError = None, fetch = (\<lambda>url. Inl (Error ''ECONNRESET'')) \<rparr>) True ''armv7hf'' (\<lparr> files = (\<lambda>p. None), dirs = {}, requests = [], logged = [] \<rparr>))))) = [''https://github.com/balena-io/qemu/releases/download/v4.0.0%2Bbalena2/qemu-4.0.0.balena2-arm.tar.gz''] \<and>
   files (snd (installQemuIfNeeded (\<lparr> info = Inr \<lparr> OperatingSystem = ''Ubuntu 18.04.2 LTS'', Architecture = ''x86_64'' \<rparr>, binDirectory = Inr ''/home/u/.balena/bin'', mkdirError = None, fetch = (\<lambda>url. Inl (Error ''ECONNRESET'')) \<rparr>) True ''armv7hf'' (snd (installQemuIfNeeded (\<lparr> info = Inr \<lparr> OperatingSystem = ''Ubuntu 18.04.2 LTS'', Architecture = ''x86_64'' \<rparr>, binDirectory = Inr ''/home/u/.balena/bin'', mkdirError = None, fetch = (\<lambda>url. Inl (Error ''ECONNRESET'')) \<rparr>) True ''armv7hf'' (\<lparr> files = (\<lambda>p. None), dirs = {}, requests = [], logged = [] \<rparr>))))) ''/home/u/.balena/bin/qemu-execve-armv7hf-v4.0.0+balena2''
     = Some \<lparr> content = [], mode = ''666'' \<rparr> \<and>
   fst (installQemuIfNeeded (\<lparr> info = Inr \<lparr> OperatingSystem = ''Ubuntu 18.04.2 LTS'', Architecture = ''x86_64'' \<rparr>, binDirectory = Inr ''/home/u/.balena/bin'', mkdirError = None, fetch = (\<lambda>url. Inr [(''qemu-4.0.0+balena2-arm/qemu-arm-static'', ''ELF'')]) \<rparr>) True ''i386'' (\<lparr> files = (\<lambda>p. None), dirs = {}, requests = [], logged = [] \<rparr>)) = Inl (Error ''Cannot install emulator for architecture i386'') \<and>
   fst (installQemuIfNeeded (\<lparr> info = Inr \<lparr> OperatingSystem = ''Ubuntu 18.04.2 LTS'', Architecture = ''x86_64'' \<rparr>, binDirectory = Inr ''/home/u/.balena/bin'', mkdirError = None, fetch = (\<lambda>url. Inr [(''qemu-4.0.0+balena2-arm/qemu-arm-static'', ''ELF'')]) \<rparr>) True ''i386'' (snd (installQemuIfNeeded (\<lparr> info = Inr \<lparr> OperatingSystem = ''Ubuntu 18.04.2 LTS'', Architecture = ''x86_64'' \<rparr>, binDirectory = Inr ''/home/u/.balena/bin'', mkdirError = None, fetch = (\<lambda>url. Inr [(''qemu-4.0.0+balena2-arm/qemu-arm-static'', ''ELF'')]) \<rparr>) True ''i386'' (\<lparr> files = (\<lambda>p. None), dirs = {}, requests = [], logged = [] \<rparr>)))) = Inr True \<and>
   requests (snd (installQemuIfNeeded (\<lparr> info = Inr \<lparr> OperatingSystem = ''Ubuntu 18.04.2 LTS'', Architecture = ''x86_64'' \<rparr>, binDirectory = Inr ''/home/u/.balena/bin'', mkdirError = None, fetch = (\<lambda>url. Inr [(''qemu-4.0.0+balena2-arm/qemu-arm-static'', ''ELF'')]) \<rparr>) True ''i386'' (snd (installQemuIfNeeded (\<lparr> info = Inr \<lparr> OperatingSystem = ''Ubuntu 18.04.2 LTS'', Architecture = ''x86_64'' \<rparr>, binDirectory = Inr ''/home/u/.balena/bin'', mkdirError = None, fetch = (\<lambda>url. Inr [(''qemu-4.0.0+balena2-arm/qemu-arm-static'', ''ELF'')]) \<rparr>) True ''i386'' (\<lparr> files = (\<lambda>p. None), dirs = {}, requests = [], logged = [] \<rparr>))))) = [] \<and>
   files (snd (installQemuIfNeeded (\<lparr> info = Inr \<lparr> OperatingSystem = ''Ubuntu 18.04.2 LTS'', Architecture = ''x86_64'' \<rparr>, binDirectory = Inr ''/home/u/.balena/bin'', mkdirError = None, fetch = (\<lambda>url. Inr [(''qemu-4.0.0+balena2-arm/qemu-arm-static'', ''ELF'')]) \<rparr>) True ''i386'' (snd (installQemuIfNeeded (\<lparr> info = Inr \<lparr> OperatingSystem = ''Ubuntu 18.04.2 LTS'', Architecture = ''x86_64'' \<rparr>, binDirectory = Inr ''/home/u/.balena/bin'', mkdirError = None, fetch = (\<lambda>url. Inr [(''qemu-4.0.0+balena2-arm/qemu-arm-static'', ''ELF'')]) \<rparr>) True ''i386'' (\<lparr> files = (\<lambda>p. None), dirs = {}, requests = [], logged = [] \<rparr>))))) ''/home/u/.balena/bin/qemu-execve-i386-v4.0.0+balena2''
     = Some \<lparr> content = [], mode = ''666'' \<rparr>"
  using installQemuIfNeeded_failed_install_cached by simp
section \<open>Properties of the build options of a task\<close>




section \<open>Properties of the log capture\<close>

text \<open>
  The branches of \<open>buildLogCapture\<close> test the truthiness of the properties, not their
  presence. The claim C8 as stated fails for an event that carries both a status and the
  progress \<open>0\<close> (a pull that has just started): it is logged as the status alone, not
  as \<open>0% <status>\<close>.
\<close>

theorem buildLogCapture_zero_progress_counterexample:
  "fst (buildLogCapture True []
          (Obj \<lparr> status = Val ''Downloading'', progress = Val (Finite 0), error = Undefined \<rparr>)) =
     [Str ''Downloading''] \<and>
   fst (buildLogCapture True []
          (Obj \<lparr> status = Val ''Downloading'', progress = Val (Finite 0), error = Undefined \<rparr>)) \<noteq>
     [Str (numberToString (Finite 0) @ ''% '' @ ''Downloading'')]"
  by (simp add: buildLogCapture_def truthyStr_def truthyNum_def toStr_def)

text \<open>
  C8, amended. Every payload adds exactly one entry to the buffer and is passed
  downstream unchanged. The entry is chosen in a fixed order: an event with a truthy
  (non-empty) \<open>error\<close> is logged as that error's string; otherwise an event with a truthy
  \<open>progress\<close> (neither \<open>0\<close> nor \<open>NaN\<close>) and a non-empty \<open>status\<close> is logged as
  \<open><progress>% <status>\<close>; otherwise an event with a non-empty \<open>status\<close> is logged as
  that status; any other payload (a raw string, or an event without a usable status) is
  appended unchanged.
\<close>

theorem buildLogCapture_classifies:
  "snd (buildLogCapture objectMode buffer data) = data \<and>
   (\<exists>entry. fst (buildLogCapture objectMode buffer data) = buffer @ [entry]) \<and>
   (\<forall>e. data = Obj e \<and> truthyStr (error e) \<longrightarrow>
      fst (buildLogCapture objectMode buffer data) = buffer @ [Str (toStr (error e))]) \<and>
   (\<forall>e p s. data = Obj e \<and> \<not> truthyStr (error e) \<and> progress e = Val p \<and>
      truthyNum (Val p) \<and> status e = Val s \<and> s \<noteq> [] \<longrightarrow>
      fst (buildLogCapture objectMode buffer data) =
        buffer @ [Str (numberToString p @ ''% '' @ s)]) \<and>
   (\<forall>e s. data = Obj e \<and> \<not> truthyStr (error e) \<and> \<not> truthyNum (progress e) \<and>
      status e = Val s \<and> s \<noteq> [] \<longrightarrow>
      fst (buildLogCapture objectMode buffer data) = buffer @ [Str s]) \<and>
   ((\<exists>s. data = Str s) \<or>
    (\<exists>e. data = Obj e \<and> \<not> truthyStr (error e) \<and> \<not> truthyStr (status e)) \<longrightarrow>
      fst (buildLogCapture objectMode buffer data) = buffer @ [data])"
  by (cases data) (auto simp: buildLogCapture_def truthyStr_def toStr_def split: js.splits)

theorem buildLogCapture_classifies_witness:
  "buildLogCapture True [] (Obj \<lparr> status = Val ''Pulling'', progress = Val (Finite 42), error = Val ''no such image'' \<rparr>)
     = ([Str ''no such image''], Obj \<lparr> status = Val ''Pulling'', progress = Val (Finite 42), error = Val ''no such image'' \<rparr>) \<and>
   buildLogCapture True [] (Obj \<lparr> status = Val ''Downloading'', progress = Val (Finite 42), error = Undefined \<rparr>)
     = ([Str ''42% Downloading''], Obj \<lparr> status = Val ''Downloading'', progress = Val (Finite 42), error = Undefined \<rparr>) \<and>
   buildLogCapture True [] (Obj \<lparr> status = Val ''Pull complete'', progress = Undefined, error = Undefined \<rparr>)
     = ([Str ''Pull complete''], Obj \<lparr> status = Val ''Pull complete'', progress = Undefined, error = Undefined \<rparr>) \<and>
   buildLogCapture False [Str ''Step 1/2 : FROM busybox''] (Str '' ---> 1234'')
     = ([Str ''Step 1/2 : FROM busybox'', Str '' ---> 1234''], Str '' ---> 1234'')"
  using buildLogCapture_classifies [of True "[]" "Obj \<lparr> status = Val ''Pulling'', progress = Val (Finite 42), error = Val ''no such image'' \<rparr>"]
    buildLogCapture_classifies [of True "[]" "Obj \<lparr> status = Val ''Downloading'', progress = Val (Finite 42), error = Undefined \<rparr>"]
    buildLogCapture_classifies [of True "[]" "Obj \<lparr> status = Val ''Pull complete'', progress = Undefined, error = Undefined \<rparr>"]
    buildLogCapture_classifies [of False "[Str ''Step 1/2 : FROM busybox'']" "Str '' ---> 1234''"]
  by (simp add: prod_eq_iff truthyStr_def truthyNum_def toStr_def numberToString_def showNat.simps digitChar_numerals)

section \<open>Properties of the renderers' \<open>end\<close>\<close>

text \<open>
  C9. For both renderers \<open>end\<close> is idempotent. A call on a renderer that has ended
  changes nothing (and, inline, throws nothing), whatever summary, clock and window it
  is given; so a second call after any first call is a no-op. The first call on the
  interactive renderer marks it ended, removes one registration of the interrupt
  handler, clears the runloop's interval and forgets the runloop, and performs the final
  render, which sends to the terminal exactly: delete to the end, clear the line, the
  prefix, the status line (\<open>Build cancelled\<close> or \<open>Built N services in <duration>\<close>),
  then for each service in order a cleared line holding the padded prefix and service name
  followed by the service's summary (the one given, else the one of the last events),
  truncated to the window width, and last the request to show the cursor. The first call
  on the inline renderer, which registers no interrupt handler, marks it ended; without
  a summary it writes the line \<open>Built N services in <duration>\<close>; with a summary it
  writes, for each service in order, the padded name, the error or status text (or
  \<open>Waiting...\<close>) and a newline, and then that line, unless the summary lacks a service:
  then it throws a \<open>TypeError\<close> at the first such service, having written the lines
  of the services before it and not the \<open>Built\<close> line.
\<close>

theorem renderer_end_idempotent:
  "uiEnd h2 t2 s2 (uiEnd h t s r) = uiEnd h t s r \<and>
   (\<not> uiEnded r \<longrightarrow>
      uiEnded (uiEnd h t s r) \<and>
      uiSigintListeners (uiEnd h t s r) = uiSigintListeners r - 1 \<and>
      uiRunloop (uiEnd h t s r) = None \<and>
      (\<forall>timerId. uiRunloop r = Some timerId \<longrightarrow> timerId \<notin> set (uiTimers (uiEnd h t s r))) \<and>
      uiTty (uiEnd h t s r) =
            uiTty r @ [DeleteToEnd, ClearLine, Write (uiPrefix r),
                       WriteLine (if uiCancelled r then ''Build cancelled''
                                  else ''Built '' @ serviceCountStr (length (uiServices r))
                                         @ '' in '' @ durationStr h t (uiStartTime r))]
              @ concat (map (\<lambda>service.
                   [ClearLine,
                    WriteLine (cliTruncate h
                       (padEnd (uiPrefix r @ bold h service) (uiPrefixWidth r)
                          @ toStr ((case s of Some m \<Rightarrow> m | None \<Rightarrow> uiGetServiceSummary r) service))
                       (windowWidth t))]) (uiServices r))
              @ [ShowCursor]) \<and>
   inEnd h2 t2 q2 (snd (inEnd h t q i)) = (None, snd (inEnd h t q i)) \<and>
   inEnded (snd (inEnd h t q i)) \<and>
   (\<not> inEnded i \<longrightarrow>
      inEnd h t None i =
           (None, i \<lparr> inEnded := True,
                       inOutStream := inOutStream i
                          @ [''Built '' @ serviceCountStr (length (inServices i)) @ '' in ''
                             @ durationStr h t (inStartTime i) @ [newline]] \<rparr>) \<and>
      inEnd h t (Some m) i =
        ((if \<forall>service\<in>set (inServices i). m service \<noteq> None then None
          else Some (TypeError ''Cannot destructure property status of undefined'')),
         i \<lparr> inEnded := True,
             inOutStream := inOutStream i @ concat (map (\<lambda>service.
               [padEnd (bold h service) (inPrefixWidth i),
                (case m service of
                   Some (Obj e) \<Rightarrow> if truthyStr (error e) then toStr (error e)
                                  else if truthyStr (status e) then toStr (status e)
                                  else ''Waiting...''
                 | _ \<Rightarrow> ''Waiting...''),
                [newline]])
                (takeWhile (\<lambda>service. m service \<noteq> None) (inServices i)))
            @ (if \<forall>service\<in>set (inServices i). m service \<noteq> None
               then [''Built '' @ serviceCountStr (length (inServices i)) @ '' in ''
                             @ durationStr h t (inStartTime i) @ [newline]]
               else []) \<rparr>))"
proof (intro conjI impI)
  show "uiEnd h2 t2 s2 (uiEnd h t s r) = uiEnd h t s r"
    by (rule uiEnd_noop [OF uiEnd_ended])
next
  assume "\<not> uiEnded r"
  show "uiEnded (uiEnd h t s r)" by (rule uiEnd_ended)
next
  assume a: "\<not> uiEnded r"
  show "uiSigintListeners (uiEnd h t s r) = uiSigintListeners r - 1"
    using uiEnd_first [OF a] by blast
next
  assume a: "\<not> uiEnded r"
  show "uiRunloop (uiEnd h t s r) = None"
    using uiEnd_first [OF a] by blast
next
  assume a: "\<not> uiEnded r"
  show "\<forall>timerId. uiRunloop r = Some timerId \<longrightarrow> timerId \<notin> set (uiTimers (uiEnd h t s r))"
    using uiEnd_first [OF a, of h t s] by blast
next
  assume a: "\<not> uiEnded r"
  show "uiTty (uiEnd h t s r) =
            uiTty r @ [DeleteToEnd, ClearLine, Write (uiPrefix r),
                       WriteLine (if uiCancelled r then ''Build cancelled''
                                  else ''Built '' @ serviceCountStr (length (uiServices r))
                                         @ '' in '' @ durationStr h t (uiStartTime r))]
              @ concat (map (\<lambda>service.
                   [ClearLine,
                    WriteLine (cliTruncate h
                       (padEnd (uiPrefix r @ bold h service) (uiPrefixWidth r)
                          @ toStr ((case s of Some m \<Rightarrow> m | None \<Rightarrow> uiGetServiceSummary r) service))
                       (windowWidth t))]) (uiServices r))
              @ [ShowCursor]"
    by (rule uiEnd_render [OF a])
next
  show "inEnd h2 t2 q2 (snd (inEnd h t q i)) = (None, snd (inEnd h t q i))"
    by (rule inEnd_noop [OF inEnd_ended])
next
  show "inEnded (snd (inEnd h t q i))" by (rule inEnd_ended)
next
  assume a: "\<not> inEnded i"
  show "inEnd h t None i =
           (None, i \<lparr> inEnded := True,
                       inOutStream := inOutStream i
                          @ [''Built '' @ serviceCountStr (length (inServices i)) @ '' in ''
                             @ durationStr h t (inStartTime i) @ [newline]] \<rparr>)"
    by (rule inEnd_render(1) [OF a])
next
  assume a: "\<not> inEnded i"
  show "inEnd h t (Some m) i =
        ((if \<forall>service\<in>set (inServices i). m service \<noteq> None then None
          else Some (TypeError ''Cannot destructure property status of undefined'')),
         i \<lparr> inEnded := True,
             inOutStream := inOutStream i @ concat (map (\<lambda>service.
               [padEnd (bold h service) (inPrefixWidth i),
                (case m service of
                   Some (Obj e) \<Rightarrow> if truthyStr (error e) then toStr (error e)
                                  else if truthyStr (status e) then toStr (status e)
                                  else ''Waiting...''
                 | _ \<Rightarrow> ''Waiting...''),
                [newline]])
                (takeWhile (\<lambda>service. m service \<noteq> None) (inServices i)))
            @ (if \<forall>service\<in>set (inServices i). m service \<noteq> None
               then [''Built '' @ serviceCountStr (length (inServices i)) @ '' in ''
                             @ durationStr h t (inStartTime i) @ [newline]]
               else []) \<rparr>)"
    by (rule inEnd_render(2) [OF a])
qed

theorem renderer_end_idempotent_witness:
  "\<not> uiEnded (uiStart \<lparr> now = 1000, windowWidth = 80 \<rparr> (newBuildProgressUI (\<lparr> blue = (\<lambda>s. s), bold = (\<lambda>s. s), cliTruncate = (\<lambda>s n. take n s), stringWidth = length, formatDuration = (\<lambda>d. ''a few seconds'') \<rparr>) [''api''])) \<and>
   uiEnd (\<lparr> blue = (\<lambda>s. s), bold = (\<lambda>s. s), cliTruncate = (\<lambda>s n. take n s), stringWidth = length, formatDuration = (\<lambda>d. ''a few seconds'') \<rparr>) \<lparr> now = 6000, windowWidth = 40 \<rparr> None (uiEnd (\<lparr> blue = (\<lambda>s. s), bold = (\<lambda>s. s), cliTruncate = (\<lambda>s n. take n s), stringWidth = length, formatDuration = (\<lambda>d. ''a few seconds'') \<rparr>) \<lparr> now = 5000, windowWidth = 80 \<rparr> None (uiStart \<lparr> now = 1000, windowWidth = 80 \<rparr> (newBuildProgressUI (\<lparr> blue = (\<lambda>s. s), bold = (\<lambda>s. s), cliTruncate = (\<lambda>s n. take n s), stringWidth = length, formatDuration = (\<lambda>d. ''a few seconds'') \<rparr>) [''api'']))) = (uiEnd (\<lparr> blue = (\<lambda>s. s), bold = (\<lambda>s. s), cliTruncate = (\<lambda>s n. take n s), stringWidth = length, formatDuration = (\<lambda>d. ''a few seconds'') \<rparr>) \<lparr> now = 5000, windowWidth = 80 \<rparr> None (uiStart \<lparr> now = 1000, windowWidth = 80 \<rparr> (newBuildProgressUI (\<lparr> blue = (\<lambda>s. s), bold = (\<lambda>s. s), cliTruncate = (\<lambda>s n. take n s), stringWidth = length, formatDuration = (\<lambda>d. ''a few seconds'') \<rparr>) [''api'']))) \<and>
   uiEnded (uiEnd (\<lparr> blue = (\<lambda>s. s), bold = (\<lambda>s. s), cliTruncate = (\<lambda>s n. take n s), stringWidth = length, formatDuration = (\<lambda>d. ''a few seconds'') \<rparr>) \<lparr> now = 5000, windowWidth = 80 \<rparr> None (uiStart \<lparr> now = 1000, windowWidth = 80 \<rparr> (newBuildProgressUI (\<lparr> blue = (\<lambda>s. s), bold = (\<lambda>s. s), cliTruncate = (\<lambda>s n. take n s), stringWidth = length, formatDuration = (\<lambda>d. ''a few seconds'') \<rparr>) [''api'']))) \<and>
   uiSigintListeners (uiEnd (\<lparr> blue = (\<lambda>s. s), bold = (\<lambda>s. s), cliTruncate = (\<lambda>s n. take n s), stringWidth = length, formatDuration = (\<lambda>d. ''a few seconds'') \<rparr>) \<lparr> now = 5000, windowWidth = 80 \<rparr> None (uiStart \<lparr> now = 1000, windowWidth = 80 \<rparr> (newBuildProgressUI (\<lparr> blue = (\<lambda>s. s), bold = (\<lambda>s. s), cliTruncate = (\<lambda>s n. take n s), stringWidth = length, formatDuration = (\<lambda>d. ''a few seconds'') \<rparr>) [''api'']))) = 0 \<and>
   uiRunloop (uiEnd (\<lparr> blue = (\<lambda>s. s), bold = (\<lambda>s. s), cliTruncate = (\<lambda>s n. take n s), stringWidth = length, formatDuration = (\<lambda>d. ''a few seconds'') \<rparr>) \<lparr> now = 5000, windowWidth = 80 \<rparr> None (uiStart \<lparr> now = 1000, windowWidth = 80 \<rparr> (newBuildProgressUI (\<lparr> blue = (\<lambda>s. s), bold = (\<lambda>s. s), cliTruncate = (\<lambda>s n. take n s), stringWidth = length, formatDuration = (\<lambda>d. ''a few seconds'') \<rparr>) [''api'']))) = None \<and>
   uiTty (uiEnd (\<lparr> blue = (\<lambda>s. s), bold = (\<lambda>s. s), cliTruncate = (\<lambda>s n. take n s), stringWidth = length, formatDuration = (\<lambda>d. ''a few seconds'') \<rparr>) \<lparr> now = 5000, windowWidth = 80 \<rparr> None (uiStart \<lparr> now = 1000, windowWidth = 80 \<rparr> (newBuildProgressUI (\<lparr> blue = (\<lambda>s. s), bold = (\<lambda>s. s), cliTruncate = (\<lambda>s n. take n s), stringWidth = length, formatDuration = (\<lambda>d. ''a few seconds'') \<rparr>) [''api'']))) =
     [HideCursor, DeleteToEnd, ClearLine, Write ''[Build]   '',
      WriteLine ''Built 1 service in a few seconds'',
      ClearLine, WriteLine ''[Build]   api          Preparing...'', ShowCursor] \<and>
   \<not> inEnded (inStart (\<lparr> blue = (\<lambda>s. s), bold = (\<lambda>s. s), cliTruncate = (\<lambda>s n. take n s), stringWidth = length, formatDuration = (\<lambda>d. ''a few seconds'') \<rparr>) \<lparr> now = 1000, windowWidth = 80 \<rparr> (newBuildProgressInline [''api'', ''db''])) \<and>
   inEnd (\<lparr> blue = (\<lambda>s. s), bold = (\<lambda>s. s), cliTruncate = (\<lambda>s n. take n s), stringWidth = length, formatDuration = (\<lambda>d. ''a few seconds'') \<rparr>) \<lparr> now = 6000, windowWidth = 40 \<rparr> None (snd (inEnd (\<lparr> blue = (\<lambda>s. s), bold = (\<lambda>s. s), cliTruncate = (\<lambda>s n. take n s), stringWidth = length, formatDuration = (\<lambda>d. ''a few seconds'') \<rparr>) \<lparr> now = 5000, windowWidth = 80 \<rparr> None (inStart (\<lparr> blue = (\<lambda>s. s), bold = (\<lambda>s. s), cliTruncate = (\<lambda>s n. take n s), stringWidth = length, formatDuration = (\<lambda>d. ''a few seconds'') \<rparr>) \<lparr> now = 1000, windowWidth = 80 \<rparr> (newBuildProgressInline [''api'', ''db''])))) = (None, snd (inEnd (\<lparr> blue = (\<lambda>s. s), bold = (\<lambda>s. s), cliTruncate = (\<lambda>s n. take n s), stringWidth = length, formatDuration = (\<lambda>d. ''a few seconds'') \<rparr>) \<lparr> now = 5000, windowWidth = 80 \<rparr> None (inStart (\<lparr> blue = (\<lambda>s. s), bold = (\<lambda>s. s), cliTruncate = (\<lambda>s n. take n s), stringWidth = length, formatDuration = (\<lambda>d. ''a few seconds'') \<rparr>) \<lparr> now = 1000, windowWidth = 80 \<rparr> (newBuildProgressInline [''api'', ''db''])))) \<and>
   inEnded (snd (inEnd (\<lparr> blue = (\<lambda>s. s), bold = (\<lambda>s. s), cliTruncate = (\<lambda>s n. take n s), stringWidth = length, formatDuration = (\<lambda>d. ''a few seconds'') \<rparr>) \<lparr> now = 5000, windowWidth = 80 \<rparr> None (inStart (\<lparr> blue = (\<lambda>s. s), bold = (\<lambda>s. s), cliTruncate = (\<lambda>s n. take n s), stringWidth = length, formatDuration = (\<lambda>d. ''a few seconds'') \<rparr>) \<lparr> now = 1000, windowWidth = 80 \<rparr> (newBuildProgressInline [''api'', ''db''])))) \<and>
   inOutStream (snd (inEnd (\<lparr> blue = (\<lambda>s. s), bold = (\<lambda>s. s), cliTruncate = (\<lambda>s n. take n s), stringWidth = length, formatDuration = (\<lambda>d. ''a few seconds'') \<rparr>) \<lparr> now = 5000, windowWidth = 80 \<rparr> None (inStart (\<lparr> blue = (\<lambda>s. s), bold = (\<lambda>s. s), cliTruncate = (\<lambda>s n. take n s), stringWidth = length, formatDuration = (\<lambda>d. ''a few seconds'') \<rparr>) \<lparr> now = 1000, windowWidth = 80 \<rparr> (newBuildProgressInline [''api'', ''db''])))) =
     [''Building services...'' @ [newline],
      ''api          '', ''Preparing...'', [newline],
      ''db           '', ''Preparing...'', [newline],
      ''Built 2 services in a few seconds'' @ [newline]] \<and>
   fst (inEnd (\<lparr> blue = (\<lambda>s. s), bold = (\<lambda>s. s), cliTruncate = (\<lambda>s n. take n s), stringWidth = length, formatDuration = (\<lambda>d. ''a few seconds'') \<rparr>) \<lparr> now = 5000, windowWidth = 80 \<rparr> (Some (\<lambda>service. if service = ''api'' then Some (Obj \<lparr> status = Val ''Pushed'', progress = Undefined, error = Undefined \<rparr>) else None)) (inStart (\<lparr> blue = (\<lambda>s. s), bold = (\<lambda>s. s), cliTruncate = (\<lambda>s n. take n s), stringWidth = length, formatDuration = (\<lambda>d. ''a few seconds'') \<rparr>) \<lparr> now = 1000, windowWidth = 80 \<rparr> (newBuildProgressInline [''api'', ''db'']))) = Some (TypeError ''Cannot destructure property status of undefined'') \<and>
   inOutStream (snd (inEnd (\<lparr> blue = (\<lambda>s. s), bold = (\<lambda>s. s), cliTruncate = (\<lambda>s n. take n s), stringWidth = length, formatDuration = (\<lambda>d. ''a few seconds'') \<rparr>) \<lparr> now = 5000, windowWidth = 80 \<rparr> (Some (\<lambda>service. if service = ''api'' then Some (Obj \<lparr> status = Val ''Pushed'', progress = Undefined, error = Undefined \<rparr>) else None)) (inStart (\<lparr> blue = (\<lambda>s. s), bold = (\<lambda>s. s), cliTruncate = (\<lambda>s n. take n s), stringWidth = length, formatDuration = (\<lambda>d. ''a few seconds'') \<rparr>) \<lparr> now = 1000, windowWidth = 80 \<rparr> (newBuildProgressInline [''api'', ''db''])))) =
     [''Building services...'' @ [newline],
      ''api          '', ''Preparing...'', [newline],
      ''db           '', ''Preparing...'', [newline],
      ''api          '', ''Pushed'', [newline]]"
proof -
  have p: "replicate 10 (CHR '' '') = ''          ''" "replicate 11 (CHR '' '') = ''           ''"
    by (simp_all add: numeral_eq_Suc)
  have d2: "digitChar (Suc (Suc 0)) = CHR ''2''"
    using digitChar_numerals(4) by (simp add: numeral_2_eq_2)
  have a: "\<not> uiEnded (uiStart \<lparr> now = 1000, windowWidth = 80 \<rparr> (newBuildProgressUI (\<lparr> blue = (\<lambda>s. s), bold = (\<lambda>s. s), cliTruncate = (\<lambda>s n. take n s), stringWidth = length, formatDuration = (\<lambda>d. ''a few seconds'') \<rparr>) [''api'']))"
    by (simp add: uiStart_def newBuildProgressUI_def uiHandleEvent_def Let_def)
  have f: "uiSigintListeners (uiStart \<lparr> now = 1000, windowWidth = 80 \<rparr> (newBuildProgressUI (\<lparr> blue = (\<lambda>s. s), bold = (\<lambda>s. s), cliTruncate = (\<lambda>s n. take n s), stringWidth = length, formatDuration = (\<lambda>d. ''a few seconds'') \<rparr>) [''api''])) = 1"
    "uiTty (uiStart \<lparr> now = 1000, windowWidth = 80 \<rparr> (newBuildProgressUI (\<lparr> blue = (\<lambda>s. s), bold = (\<lambda>s. s), cliTruncate = (\<lambda>s n. take n s), stringWidth = length, formatDuration = (\<lambda>d. ''a few seconds'') \<rparr>) [''api''])) = [HideCursor]"
    "uiPrefix (uiStart \<lparr> now = 1000, windowWidth = 80 \<rparr> (newBuildProgressUI (\<lparr> blue = (\<lambda>s. s), bold = (\<lambda>s. s), cliTruncate = (\<lambda>s n. take n s), stringWidth = length, formatDuration = (\<lambda>d. ''a few seconds'') \<rparr>) [''api''])) = ''[Build]   ''"
    "uiPrefixWidth (uiStart \<lparr> now = 1000, windowWidth = 80 \<rparr> (newBuildProgressUI (\<lparr> blue = (\<lambda>s. s), bold = (\<lambda>s. s), cliTruncate = (\<lambda>s n. take n s), stringWidth = length, formatDuration = (\<lambda>d. ''a few seconds'') \<rparr>) [''api''])) = 23"
    "uiServices (uiStart \<lparr> now = 1000, windowWidth = 80 \<rparr> (newBuildProgressUI (\<lparr> blue = (\<lambda>s. s), bold = (\<lambda>s. s), cliTruncate = (\<lambda>s n. take n s), stringWidth = length, formatDuration = (\<lambda>d. ''a few seconds'') \<rparr>) [''api''])) = [''api'']"
    "uiCancelled (uiStart \<lparr> now = 1000, windowWidth = 80 \<rparr> (newBuildProgressUI (\<lparr> blue = (\<lambda>s. s), bold = (\<lambda>s. s), cliTruncate = (\<lambda>s n. take n s), stringWidth = length, formatDuration = (\<lambda>d. ''a few seconds'') \<rparr>) [''api''])) = False"
    "uiStartTime (uiStart \<lparr> now = 1000, windowWidth = 80 \<rparr> (newBuildProgressUI (\<lparr> blue = (\<lambda>s. s), bold = (\<lambda>s. s), cliTruncate = (\<lambda>s n. take n s), stringWidth = length, formatDuration = (\<lambda>d. ''a few seconds'') \<rparr>) [''api''])) = Some 1000"
    "uiGetServiceSummary (uiStart \<lparr> now = 1000, windowWidth = 80 \<rparr> (newBuildProgressUI (\<lparr> blue = (\<lambda>s. s), bold = (\<lambda>s. s), cliTruncate = (\<lambda>s n. take n s), stringWidth = length, formatDuration = (\<lambda>d. ''a few seconds'') \<rparr>) [''api''])) ''api'' = Val ''Preparing...''"
    by (simp_all add: uiStart_def newBuildProgressUI_def uiHandleEvent_def Let_def
          uiGetServiceSummary_def truthyStr_def truthyNum_def toStr_def)
  have b: "\<not> inEnded (inStart (\<lparr> blue = (\<lambda>s. s), bold = (\<lambda>s. s), cliTruncate = (\<lambda>s n. take n s), stringWidth = length, formatDuration = (\<lambda>d. ''a few seconds'') \<rparr>) \<lparr> now = 1000, windowWidth = 80 \<rparr> (newBuildProgressInline [''api'', ''db'']))"
    by (simp add: inStart_def newBuildProgressInline_def inRenderEvent_def Let_def)
  have g: "inServices (inStart (\<lparr> blue = (\<lambda>s. s), bold = (\<lambda>s. s), cliTruncate = (\<lambda>s n. take n s), stringWidth = length, formatDuration = (\<lambda>d. ''a few seconds'') \<rparr>) \<lparr> now = 1000, windowWidth = 80 \<rparr> (newBuildProgressInline [''api'', ''db''])) = [''api'', ''db'']"
    "inPrefixWidth (inStart (\<lparr> blue = (\<lambda>s. s), bold = (\<lambda>s. s), cliTruncate = (\<lambda>s n. take n s), stringWidth = length, formatDuration = (\<lambda>d. ''a few seconds'') \<rparr>) \<lparr> now = 1000, windowWidth = 80 \<rparr> (newBuildProgressInline [''api'', ''db''])) = 13"
    "inStartTime (inStart (\<lparr> blue = (\<lambda>s. s), bold = (\<lambda>s. s), cliTruncate = (\<lambda>s n. take n s), stringWidth = length, formatDuration = (\<lambda>d. ''a few seconds'') \<rparr>) \<lparr> now = 1000, windowWidth = 80 \<rparr> (newBuildProgressInline [''api'', ''db''])) = Some 1000"
    "inOutStream (inStart (\<lparr> blue = (\<lambda>s. s), bold = (\<lambda>s. s), cliTruncate = (\<lambda>s n. take n s), stringWidth = length, formatDuration = (\<lambda>d. ''a few seconds'') \<rparr>) \<lparr> now = 1000, windowWidth = 80 \<rparr> (newBuildProgressInline [''api'', ''db''])) = [''Building services...'' @ [newline],
      ''api          '', ''Preparing...'', [newline],
      ''db           '', ''Preparing...'', [newline]]"
    by (simp_all add: inStart_def newBuildProgressInline_def inRenderEvent_def Let_def
          truthyStr_def toStr_def padEnd_def p)
  note th = renderer_end_idempotent [where ?h2.0 = "\<lparr> blue = (\<lambda>s. s), bold = (\<lambda>s. s), cliTruncate = (\<lambda>s n. take n s), stringWidth = length, formatDuration = (\<lambda>d. ''a few seconds'') \<rparr>" and ?t2.0 = "\<lparr> now = 6000, windowWidth = 40 \<rparr>" and ?s2.0 = None and h = "\<lparr> blue = (\<lambda>s. s), bold = (\<lambda>s. s), cliTruncate = (\<lambda>s n. take n s), stringWidth = length, formatDuration = (\<lambda>d. ''a few seconds'') \<rparr>" and t = "\<lparr> now = 5000, windowWidth = 80 \<rparr>" and s = None and r = "(uiStart \<lparr> now = 1000, windowWidth = 80 \<rparr> (newBuildProgressUI (\<lparr> blue = (\<lambda>s. s), bold = (\<lambda>s. s), cliTruncate = (\<lambda>s n. take n s), stringWidth = length, formatDuration = (\<lambda>d. ''a few seconds'') \<rparr>) [''api'']))" and ?q2.0 = None and q = None and i = "(inStart (\<lparr> blue = (\<lambda>s. s), bold = (\<lambda>s. s), cliTruncate = (\<lambda>s n. take n s), stringWidth = length, formatDuration = (\<lambda>d. ''a few seconds'') \<rparr>) \<lparr> now = 1000, windowWidth = 80 \<rparr> (newBuildProgressInline [''api'', ''db'']))" and m = "(\<lambda>service. if service = ''api'' then Some (Obj \<lparr> status = Val ''Pushed'', progress = Undefined, error = Undefined \<rparr>) else None)"]
  note u = th [THEN conjunct2, THEN conjunct1, THEN mp, OF a]
  note v = th [THEN conjunct2, THEN conjunct2, THEN conjunct2, THEN conjunct2, THEN mp, OF b]
  have u5: "uiTty (uiEnd h t None r) = xs @ ys @ concat (map k [''api'']) @ [ShowCursor] \<Longrightarrow>
            uiTty (uiEnd h t None r) = xs @ ys @ k ''api'' @ [ShowCursor]" for h t r xs ys k
    by simp
  have e1: "uiTty (uiEnd (\<lparr> blue = (\<lambda>s. s), bold = (\<lambda>s. s), cliTruncate = (\<lambda>s n. take n s), stringWidth = length, formatDuration = (\<lambda>d. ''a few seconds'') \<rparr>) \<lparr> now = 5000, windowWidth = 80 \<rparr> None (uiStart \<lparr> now = 1000, windowWidth = 80 \<rparr> (newBuildProgressUI (\<lparr> blue = (\<lambda>s. s), bold = (\<lambda>s. s), cliTruncate = (\<lambda>s n. take n s), stringWidth = length, formatDuration = (\<lambda>d. ''a few seconds'') \<rparr>) [''api'']))) =
     [HideCursor, DeleteToEnd, ClearLine, Write ''[Build]   '',
      WriteLine ''Built 1 service in a few seconds'',
      ClearLine, WriteLine ''[Build]   api          Preparing...'', ShowCursor]"
    using u [THEN conjunct2, THEN conjunct2, THEN conjunct2, THEN conjunct2]
    by (simp add: f padEnd_def toStr_def serviceCountStr_def durationStr_def p)
  have e2: "inOutStream (snd (inEnd (\<lparr> blue = (\<lambda>s. s), bold = (\<lambda>s. s), cliTruncate = (\<lambda>s n. take n s), stringWidth = length, formatDuration = (\<lambda>d. ''a few seconds'') \<rparr>) \<lparr> now = 5000, windowWidth = 80 \<rparr> None (inStart (\<lparr> blue = (\<lambda>s. s), bold = (\<lambda>s. s), cliTruncate = (\<lambda>s n. take n s), stringWidth = length, formatDuration = (\<lambda>d. ''a few seconds'') \<rparr>) \<lparr> now = 1000, windowWidth = 80 \<rparr> (newBuildProgressInline [''api'', ''db''])))) =
     [''Building services...'' @ [newline],
      ''api          '', ''Preparing...'', [newline],
      ''db           '', ''Preparing...'', [newline],
      ''Built 2 services in a few seconds'' @ [newline]]"
    using v [THEN conjunct1]
    by (simp add: g serviceCountStr_def durationStr_def showNat.simps d2)
  have e3: "fst (inEnd (\<lparr> blue = (\<lambda>s. s), bold = (\<lambda>s. s), cliTruncate = (\<lambda>s n. take n s), stringWidth = length, formatDuration = (\<lambda>d. ''a few seconds'') \<rparr>) \<lparr> now = 5000, windowWidth = 80 \<rparr> (Some (\<lambda>service. if service = ''api'' then Some (Obj \<lparr> status = Val ''Pushed'', progress = Undefined, error = Undefined \<rparr>) else None)) (inStart (\<lparr> blue = (\<lambda>s. s), bold = (\<lambda>s. s), cliTruncate = (\<lambda>s n. take n s), stringWidth = length, formatDuration = (\<lambda>d. ''a few seconds'') \<rparr>) \<lparr> now = 1000, windowWidth = 80 \<rparr> (newBuildProgressInline [''api'', ''db'']))) = Some (TypeError ''Cannot destructure property status of undefined'')"
    using v [THEN conjunct2] by (simp add: g)
  have e4: "inOutStream (snd (inEnd (\<lparr> blue = (\<lambda>s. s), bold = (\<lambda>s. s), cliTruncate = (\<lambda>s n. take n s), stringWidth = length, formatDuration = (\<lambda>d. ''a few seconds'') \<rparr>) \<lparr> now = 5000, windowWidth = 80 \<rparr> (Some (\<lambda>service. if service = ''api'' then Some (Obj \<lparr> status = Val ''Pushed'', progress = Undefined, error = Undefined \<rparr>) else None)) (inStart (\<lparr> blue = (\<lambda>s. s), bold = (\<lambda>s. s), cliTruncate = (\<lambda>s n. take n s), stringWidth = length, formatDuration = (\<lambda>d. ''a few seconds'') \<rparr>) \<lparr> now = 1000, windowWidth = 80 \<rparr> (newBuildProgressInline [''api'', ''db''])))) =
     [''Building services...'' @ [newline],
      ''api          '', ''Preparing...'', [newline],
      ''db           '', ''Preparing...'', [newline],
      ''api          '', ''Pushed'', [newline]]"
    using v [THEN conjunct2] by (simp add: g padEnd_def p truthyStr_def toStr_def)
  show ?thesis
    using a b th [THEN conjunct1] u [THEN conjunct1] u [THEN conjunct2, THEN conjunct1]
      u [THEN conjunct2, THEN conjunct2, THEN conjunct1]
      th [THEN conjunct2, THEN conjunct2, THEN conjunct1]
      th [THEN conjunct2, THEN conjunct2, THEN conjunct2, THEN conjunct1]
      e1 e2 e3 e4
    by (simp add: f(1))
qed
section \<open>Properties of the pull-progress adapter\<close>

text \<open>
  C10. For every pull event the adapter emits a structured event
  \<open>{status, progress, error}\<close>: a leading \<open>Status: \<close> is removed from the status; when
  an \<open>id\<close> is present the status is prefixed with \<open><id>: \<close> (the prefix is put in
  front of what the status would be without the id); a percentage of exactly \<open>100\<close> is
  forwarded as an undefined progress and every other percentage unchanged; the error is
  the message of \<open>errorDetail\<close> when there is one, and the event's \<open>error\<close> otherwise.
\<close>

theorem pullProgressAdapter_event:
  "(\<forall>t. nullish (p_id ev) \<and> p_status ev = Val (''Status: '' @ t) \<longrightarrow>
      status (pullProgressAdapter ev) = Val t) \<and>
   (\<forall>s. nullish (p_id ev) \<and> p_status ev = Val s \<and> \<not> prefix ''Status: '' s \<longrightarrow>
      status (pullProgressAdapter ev) = Val s) \<and>
   (nullish (p_id ev) \<and> nullish (p_status ev) \<longrightarrow>
      status (pullProgressAdapter ev) = p_status ev) \<and>
   (\<forall>i. p_id ev = Val i \<longrightarrow>
      status (pullProgressAdapter ev) =
        Val (i @ '': '' @ toStr (status (pullProgressAdapter (ev \<lparr> p_id := Undefined \<rparr>))))) \<and>
   (p_percentage ev = Val (Finite 100) \<longrightarrow> progress (pullProgressAdapter ev) = Undefined) \<and>
   (p_percentage ev \<noteq> Val (Finite 100) \<longrightarrow>
      progress (pullProgressAdapter ev) = p_percentage ev) \<and>
   (\<forall>d m. p_errorDetail ev = Val d \<and> message d = Val m \<longrightarrow>
      error (pullProgressAdapter ev) = Val m) \<and>
   ((\<exists>d. p_errorDetail ev = Val d \<and> nullish (message d)) \<or> nullish (p_errorDetail ev) \<longrightarrow>
      error (pullProgressAdapter ev) = p_error ev)"
  by (auto simp: pullProgressAdapter_def stripStatusPrefix_def nullish_def Let_def split: js.splits)

theorem pullProgressAdapter_event_witness:
  "pullProgressAdapter \<lparr> p_status = Val ''Status: Downloaded newer image'', p_id = Undefined,
       p_percentage = Undefined, p_error = Undefined, p_errorDetail = Undefined \<rparr>
     = \<lparr> status = Val ''Downloaded newer image'', progress = Undefined, error = Undefined \<rparr> \<and>
   pullProgressAdapter \<lparr> p_status = Val ''Downloading'', p_id = Val ''8a3f'',
       p_percentage = Val (Finite 40), p_error = Undefined, p_errorDetail = Undefined \<rparr>
     = \<lparr> status = Val ''8a3f: Downloading'', progress = Val (Finite 40), error = Undefined \<rparr> \<and>
   pullProgressAdapter \<lparr> p_status = Val ''Pull complete'', p_id = Val ''8a3f'',
       p_percentage = Val (Finite 100), p_error = Undefined, p_errorDetail = Undefined \<rparr>
     = \<lparr> status = Val ''8a3f: Pull complete'', progress = Undefined, error = Undefined \<rparr> \<and>
   pullProgressAdapter \<lparr> p_status = Undefined, p_id = Undefined,
       p_percentage = Undefined, p_error = Val ''pull failed'',
       p_errorDetail = Val \<lparr> message = Val ''manifest unknown'' \<rparr> \<rparr>
     = \<lparr> status = Undefined, progress = Undefined, error = Val ''manifest unknown'' \<rparr>"
  using pullProgressAdapter_event [of "\<lparr> p_status = Val ''Status: Downloaded newer image'', p_id = Undefined,
       p_percentage = Undefined, p_error = Undefined, p_errorDetail = Undefined \<rparr>"]
    pullProgressAdapter_event [of "\<lparr> p_status = Val ''Downloading'', p_id = Val ''8a3f'',
       p_percentage = Val (Finite 40), p_error = Undefined, p_errorDetail = Undefined \<rparr>"]
    pullProgressAdapter_event [of "\<lparr> p_status = Val ''Downloading'', p_id = Undefined,
       p_percentage = Val (Finite 40), p_error = Undefined, p_errorDetail = Undefined \<rparr>"]
    pullProgressAdapter_event [of "\<lparr> p_status = Val ''Pull complete'', p_id = Val ''8a3f'',
       p_percentage = Val (Finite 100), p_error = Undefined, p_errorDetail = Undefined \<rparr>"]
    pullProgressAdapter_event [of "\<lparr> p_status = Val ''Pull complete'', p_id = Undefined,
       p_percentage = Val (Finite 100), p_error = Undefined, p_errorDetail = Undefined \<rparr>"]
    pullProgressAdapter_event [of "\<lparr> p_status = Undefined, p_id = Undefined,
       p_percentage = Undefined, p_error = Val ''pull failed'',
       p_errorDetail = Val \<lparr> message = Val ''manifest unknown'' \<rparr> \<rparr>"]
  by (simp add: nullish_def toStr_def event.equality)

end
